theory Spec2Isabelle
  imports Main
begin

section \<open>Error taxonomy (pkg/errors)\<close>

text \<open>
  Go's \<open>error\<close> interface values that occur in the service: plain errors of the
  standard library and of the drivers (\<open>errors.New\<close>), GORM's sentinel
  \<open>gorm.ErrRecordNotFound\<close>, an arbitrary wrapper with an \<open>Unwrap\<close> method, and the
  repository's own \<open>*AppError\<close> with its five fields. The \<open>Details\<close> field has type
  \<open>any\<close>; the code only ever stores \<open>nil\<close> or a one-entry map in it.
\<close>

datatype detail_value = DUint nat | DString string

type_synonym details = "(string \<times> detail_value) list"

datatype go_error =
    ErrorString string
  | ErrRecordNotFound
  | WrapError string go_error
  | AppError (StatusCode: nat) (Code: string) (Message: string)
             (Details: "details option") (Err: "go_error option")

definition StatusBadRequest :: nat where "StatusBadRequest = 400"
definition StatusUnauthorized :: nat where "StatusUnauthorized = 401"
definition StatusForbidden :: nat where "StatusForbidden = 403"
definition StatusNotFound :: nat where "StatusNotFound = 404"
definition StatusConflict :: nat where "StatusConflict = 409"
definition StatusInternalServerError :: nat where "StatusInternalServerError = 500"
definition StatusOK :: nat where "StatusOK = 200"
definition StatusCreated :: nat where "StatusCreated = 201"
definition StatusNoContent :: nat where "StatusNoContent = 204"

lemmas http_status_defs =
  StatusBadRequest_def StatusUnauthorized_def StatusForbidden_def StatusNotFound_def
  StatusConflict_def StatusInternalServerError_def StatusOK_def StatusCreated_def
  StatusNoContent_def

definition ErrCodeInvalidInput :: string where "ErrCodeInvalidInput = ''INVALID_INPUT''"
definition ErrCodeResourceNotFound :: string where
  "ErrCodeResourceNotFound = ''RESOURCE_NOT_FOUND''"
definition ErrCodeDuplicateResource :: string where
  "ErrCodeDuplicateResource = ''DUPLICATE_RESOURCE''"
definition ErrCodeDatabase :: string where "ErrCodeDatabase = ''DATABASE_ERROR''"
definition ErrCodeInternal :: string where "ErrCodeInternal = ''INTERNAL_ERROR''"
definition ErrCodeUnauthorized :: string where "ErrCodeUnauthorized = ''UNAUTHORIZED''"
definition ErrCodeForbidden :: string where "ErrCodeForbidden = ''FORBIDDEN''"

lemmas err_code_defs =
  ErrCodeInvalidInput_def ErrCodeResourceNotFound_def ErrCodeDuplicateResource_def
  ErrCodeDatabase_def ErrCodeInternal_def ErrCodeUnauthorized_def ErrCodeForbidden_def

definition New :: "nat \<Rightarrow> string \<Rightarrow> string \<Rightarrow> details option \<Rightarrow> go_error option \<Rightarrow> go_error"
  where "New statusCode code message dets err = AppError statusCode code message dets err"

definition NewInvalidInputError :: "string \<Rightarrow> details option \<Rightarrow> go_error option \<Rightarrow> go_error"
  where "NewInvalidInputError message dets err =
           New StatusBadRequest ErrCodeInvalidInput message dets err"

definition NewResourceNotFoundError :: "string \<Rightarrow> details option \<Rightarrow> go_error option \<Rightarrow> go_error"
  where "NewResourceNotFoundError message dets err =
           New StatusNotFound ErrCodeResourceNotFound message dets err"

definition NewDuplicateResourceError :: "string \<Rightarrow> details option \<Rightarrow> go_error option \<Rightarrow> go_error"
  where "NewDuplicateResourceError message dets err =
           New StatusConflict ErrCodeDuplicateResource message dets err"

definition NewDatabaseError :: "string \<Rightarrow> go_error option \<Rightarrow> go_error"
  where "NewDatabaseError message err =
           New StatusInternalServerError ErrCodeDatabase message None err"

definition NewInternalError :: "string \<Rightarrow> go_error option \<Rightarrow> go_error"
  where "NewInternalError message err =
           New StatusInternalServerError ErrCodeInternal message None err"

definition NewUnauthorizedError :: "string \<Rightarrow> go_error option \<Rightarrow> go_error"
  where "NewUnauthorizedError message err =
           New StatusUnauthorized ErrCodeUnauthorized message None err"

definition NewForbiddenError :: "string \<Rightarrow> go_error option \<Rightarrow> go_error"
  where "NewForbiddenError message err =
           New StatusForbidden ErrCodeForbidden message None err"

lemmas new_error_defs =
  New_def NewInvalidInputError_def NewResourceNotFoundError_def
  NewDuplicateResourceError_def NewDatabaseError_def NewInternalError_def
  NewUnauthorizedError_def NewForbiddenError_def

text \<open>
  \<open>errors.As(err, &appErr)\<close> with a target of type \<open>*AppError\<close>: the first value of
  that type on the \<open>Unwrap\<close> chain, starting with the error itself. An \<open>*AppError\<close>
  matches at once, so its own \<open>Err\<close> is never inspected.
\<close>

fun errors_As :: "go_error \<Rightarrow> go_error option" where
  "errors_As (AppError s c m d e) = Some (AppError s c m d e)"
| "errors_As (WrapError msg e) = errors_As e"
| "errors_As (ErrorString msg) = None"
| "errors_As ErrRecordNotFound = None"

definition IsNotFound :: "go_error \<Rightarrow> bool" where
  "IsNotFound err =
     (case errors_As err of Some appErr \<Rightarrow> StatusCode appErr = StatusNotFound
      | None \<Rightarrow> False)"

definition GetStatusCode :: "go_error \<Rightarrow> nat" where
  "GetStatusCode err =
     (case errors_As err of Some appErr \<Rightarrow> StatusCode appErr
      | None \<Rightarrow> StatusInternalServerError)"

text \<open>
  The seven kinds of the taxonomy, with the status and the machine code the
  specification's table gives each of them, and the constructor of the source that
  builds each kind. \<open>Database\<close>, \<open>Internal\<close>, \<open>Unauthorized\<close> and \<open>Forbidden\<close> take no
  details argument in the source.
\<close>

datatype kind =
  InvalidInput | ResourceNotFound | DuplicateResource | Database | Internal
  | Unauthorized | Forbidden

fun kind_status :: "kind \<Rightarrow> nat" where
  "kind_status InvalidInput = 400"
| "kind_status ResourceNotFound = 404"
| "kind_status DuplicateResource = 409"
| "kind_status Database = 500"
| "kind_status Internal = 500"
| "kind_status Unauthorized = 401"
| "kind_status Forbidden = 403"

fun kind_code :: "kind \<Rightarrow> string" where
  "kind_code InvalidInput = ''INVALID_INPUT''"
| "kind_code ResourceNotFound = ''RESOURCE_NOT_FOUND''"
| "kind_code DuplicateResource = ''DUPLICATE_RESOURCE''"
| "kind_code Database = ''DATABASE_ERROR''"
| "kind_code Internal = ''INTERNAL_ERROR''"
| "kind_code Unauthorized = ''UNAUTHORIZED''"
| "kind_code Forbidden = ''FORBIDDEN''"

fun kind_details :: "kind \<Rightarrow> details option \<Rightarrow> details option" where
  "kind_details InvalidInput d = d"
| "kind_details ResourceNotFound d = d"
| "kind_details DuplicateResource d = d"
| "kind_details k d = None"

fun new_of_kind :: "kind \<Rightarrow> string \<Rightarrow> details option \<Rightarrow> go_error option \<Rightarrow> go_error" where
  "new_of_kind InvalidInput m d e = NewInvalidInputError m d e"
| "new_of_kind ResourceNotFound m d e = NewResourceNotFoundError m d e"
| "new_of_kind DuplicateResource m d e = NewDuplicateResourceError m d e"
| "new_of_kind Database m d e = NewDatabaseError m e"
| "new_of_kind Internal m d e = NewInternalError m e"
| "new_of_kind Unauthorized m d e = NewUnauthorizedError m e"
| "new_of_kind Forbidden m d e = NewForbiddenError m e"

text \<open>Zero or more wrappers with an \<open>Unwrap\<close> method around an error.\<close>

fun wrap_all :: "string list \<Rightarrow> go_error \<Rightarrow> go_error" where
  "wrap_all [] e = e"
| "wrap_all (w # ws) e = WrapError w (wrap_all ws e)"

text \<open>An error with no \<open>*AppError\<close> on its chain: every other error of the claim.\<close>

fun untyped :: "go_error \<Rightarrow> bool" where
  "untyped (ErrorString msg) = True"
| "untyped ErrRecordNotFound = True"
| "untyped (WrapError msg e) = untyped e"
| "untyped (AppError s c m d e) = False"

section \<open>HTTP responses\<close>

text \<open>
  \<open>encoding/json\<close> on an \<open>*AppError\<close>: \<open>StatusCode\<close> and \<open>Err\<close> carry the tag
  \<open>json:"-"\<close> and are never written; \<open>details\<close> is \<open>omitempty\<close>, absent when nil.
\<close>

record error_json =
  code :: string
  message :: string
  details :: "details option"

definition marshal_AppError :: "go_error \<Rightarrow> error_json" where
  "marshal_AppError a = \<lparr>code = Code a, message = Message a, details = Details a\<rparr>"


section \<open>Entities (internal/model, internal/domain/entities)\<close>

text \<open>
  \<open>uint\<close> identifiers are natural numbers (a 64-bit counter does not wrap in any run
  considered here); \<open>time.Time\<close> is a natural number with \<open>0\<close> the zero time;
  \<open>gorm.DeletedAt\<close> is an optional time, \<open>None\<close> for SQL \<open>NULL\<close>.
\<close>

record User =
  ID :: nat
  Name :: string
  Email :: string
  Password :: string
  Role :: string
  Active :: bool
  CreatedAt :: nat
  UpdatedAt :: nat
  DeletedAt :: "nat option"

record UserCreate =
  cName :: string
  cEmail :: string
  cPassword :: string
  cRole :: string

text \<open>The pointer fields of \<open>UserUpdate\<close>: \<open>None\<close> is the nil pointer of an absent key.\<close>

record UserUpdate =
  uName :: "string option"
  uEmail :: "string option"
  uPassword :: "string option"
  uRole :: "string option"
  uActive :: "bool option"

text \<open>\<open>UserResponse\<close> has seven fields; there is none for the password.\<close>

record UserResponse =
  rID :: nat
  rName :: string
  rEmail :: string
  rRole :: string
  rActive :: bool
  rCreatedAt :: nat
  rUpdatedAt :: nat

definition ToResponse :: "User \<Rightarrow> UserResponse" where
  "ToResponse u =
     \<lparr>rID = ID u, rName = Name u, rEmail = Email u, rRole = Role u, rActive = Active u,
      rCreatedAt = CreatedAt u, rUpdatedAt = UpdatedAt u\<rparr>"

section \<open>The users table behind GORM\<close>

text \<open>
  The relational store as the repository sees it through GORM. The table keeps every
  row, soft-deleted ones included; \<open>user_seq\<close> is the last value the identifier
  sequence handed out; \<open>now\<close> is the clock GORM stamps rows with. Each statement is
  recorded in \<open>trace\<close>. \<open>faults\<close> schedules the outcome of the coming statements: the
  head \<open>Some msg\<close> makes the next statement fail with that driver error (lost
  connection, cancelled context, timeout), \<open>None\<close> or an empty schedule lets it run.
\<close>

datatype stmt =
    SelectAll
  | SelectByID nat
  | SelectByEmail string
  | Insert User
  | UpdateRow User
  | Upsert User
  | SoftDelete nat

record db =
  users :: "User list"
  user_seq :: nat
  now :: nat
  faults :: "string option list"
  trace :: "stmt list"

definition run_stmt :: "stmt \<Rightarrow> db \<Rightarrow> string option \<times> db" where
  "run_stmt st d =
     (case faults d of
        [] \<Rightarrow> (None, d\<lparr>trace := trace d @ [st]\<rparr>)
      | f # fs \<Rightarrow> (f, d\<lparr>faults := fs, trace := trace d @ [st]\<rparr>))"

definition live :: "User \<Rightarrow> bool" where
  "live u = (DeletedAt u = None)"

text \<open>\<open>db.Find(&users)\<close>: every row that is not soft-deleted.\<close>

definition gorm_Find :: "db \<Rightarrow> (go_error + User list) \<times> db" where
  "gorm_Find d =
     (case run_stmt SelectAll d of
        (Some msg, d') \<Rightarrow> (Inl (ErrorString msg), d')
      | (None, d') \<Rightarrow> (Inr (filter live (users d')), d'))"

text \<open>\<open>db.First(&user, id)\<close>: the live row with this primary key, or
  \<open>gorm.ErrRecordNotFound\<close>.\<close>

definition gorm_First_id :: "db \<Rightarrow> nat \<Rightarrow> (go_error + User) \<times> db" where
  "gorm_First_id d i =
     (case run_stmt (SelectByID i) d of
        (Some msg, d') \<Rightarrow> (Inl (ErrorString msg), d')
      | (None, d') \<Rightarrow>
          (case filter (\<lambda>u. live u \<and> ID u = i) (users d') of
             [] \<Rightarrow> (Inl ErrRecordNotFound, d')
           | u # us \<Rightarrow> (Inr u, d')))"

text \<open>\<open>db.Where("email = ?", email).First(&user)\<close>: the first live row with this
  e-mail; under the unique index there is at most one.\<close>

definition gorm_First_email :: "db \<Rightarrow> string \<Rightarrow> (go_error + User) \<times> db" where
  "gorm_First_email d e =
     (case run_stmt (SelectByEmail e) d of
        (Some msg, d') \<Rightarrow> (Inl (ErrorString msg), d')
      | (None, d') \<Rightarrow>
          (case filter (\<lambda>u. live u \<and> Email u = e) (users d') of
             [] \<Rightarrow> (Inl ErrRecordNotFound, d')
           | u # us \<Rightarrow> (Inr u, d')))"

text \<open>
  \<open>db.Create(&user)\<close>. The \<open>uniqueIndex\<close> on \<open>email\<close> and the primary key cover all
  rows of the table, soft-deleted ones too. A zero identifier is replaced by the next
  value of the sequence, zero timestamps by the clock; the struct is written back.
\<close>

definition unique_violation :: string where
  "unique_violation = ''duplicate key value violates unique constraint''"

definition stamp :: "db \<Rightarrow> User \<Rightarrow> User" where
  "stamp d u =
     u\<lparr>CreatedAt := (if CreatedAt u = 0 then now d else CreatedAt u),
       UpdatedAt := (if UpdatedAt u = 0 then now d else UpdatedAt u)\<rparr>"

definition insert_row :: "db \<Rightarrow> User \<Rightarrow> (go_error + User) \<times> db" where
  "insert_row d u =
     (if ID u = 0 then
        (if \<exists>r \<in> set (users d). Email r = Email u
         then (Inl (ErrorString unique_violation), d\<lparr>user_seq := Suc (user_seq d)\<rparr>)
         else (let u' = (stamp d u)\<lparr>ID := Suc (user_seq d)\<rparr>
               in (Inr u', d\<lparr>users := users d @ [u'], user_seq := Suc (user_seq d)\<rparr>)))
      else
        (if \<exists>r \<in> set (users d). Email r = Email u \<or> ID r = ID u
         then (Inl (ErrorString unique_violation), d)
         else (let u' = stamp d u in (Inr u', d\<lparr>users := users d @ [u']\<rparr>))))"

definition gorm_Create :: "db \<Rightarrow> User \<Rightarrow> (go_error + User) \<times> db" where
  "gorm_Create d u =
     (case run_stmt (Insert u) d of
        (Some msg, d') \<Rightarrow> (Inl (ErrorString msg), d')
      | (None, d') \<Rightarrow> insert_row d' u)"

text \<open>
  \<open>db.Save(&user)\<close>: with a zero primary key it is \<open>Create\<close>; otherwise an \<open>UPDATE\<close>
  of all columns of the live row with this key, stamping \<open>updated_at\<close>, and, when that
  touched no row, an insert that on a primary-key conflict overwrites the row. The
  result carries \<open>RowsAffected\<close> and the struct as written back.
\<close>

definition replace_row :: "User \<Rightarrow> User list \<Rightarrow> User list" where
  "replace_row u rows = map (\<lambda>r. if ID r = ID u then u else r) rows"

definition gorm_Save :: "db \<Rightarrow> User \<Rightarrow> (go_error + nat \<times> User) \<times> db" where
  "gorm_Save d u =
     (if ID u = 0 then
        (case gorm_Create d u of
           (Inl e, d') \<Rightarrow> (Inl e, d')
         | (Inr u', d') \<Rightarrow> (Inr (1, u'), d'))
      else
        (let u1 = u\<lparr>UpdatedAt := now d\<rparr> in
         case run_stmt (UpdateRow u1) d of
           (Some msg, d') \<Rightarrow> (Inl (ErrorString msg), d')
         | (None, d') \<Rightarrow>
             if \<exists>r \<in> set (users d'). live r \<and> ID r = ID u then
               (if \<exists>r \<in> set (users d'). ID r \<noteq> ID u \<and> Email r = Email u
                then (Inl (ErrorString unique_violation), d')
                else (Inr (1, u1), d'\<lparr>users := replace_row u1 (users d')\<rparr>))
             else
               (case run_stmt (Upsert u1) d' of
                  (Some msg, d'') \<Rightarrow> (Inl (ErrorString msg), d'')
                | (None, d'') \<Rightarrow>
                    if \<exists>r \<in> set (users d''). ID r \<noteq> ID u \<and> Email r = Email u
                    then (Inl (ErrorString unique_violation), d'')
                    else if \<exists>r \<in> set (users d''). ID r = ID u
                    then (Inr (1, u1), d''\<lparr>users := replace_row u1 (users d'')\<rparr>)
                    else (Inr (1, stamp d'' u1), d''\<lparr>users := users d'' @ [stamp d'' u1]\<rparr>))))"

text \<open>
  \<open>db.Delete(&model.User{}, id)\<close>: the model has a \<open>gorm.DeletedAt\<close> field, so the
  statement is \<open>UPDATE users SET deleted_at = now WHERE id = ? AND deleted_at IS NULL\<close>;
  the result is \<open>RowsAffected\<close>.
\<close>

definition gorm_Delete :: "db \<Rightarrow> nat \<Rightarrow> (go_error + nat) \<times> db" where
  "gorm_Delete d i =
     (case run_stmt (SoftDelete i) d of
        (Some msg, d') \<Rightarrow> (Inl (ErrorString msg), d')
      | (None, d') \<Rightarrow>
          (Inr (length (filter (\<lambda>u. live u \<and> ID u = i) (users d'))),
           d'\<lparr>users := map (\<lambda>u. if live u \<and> ID u = i then u\<lparr>DeletedAt := Some (now d')\<rparr> else u)
                            (users d')\<rparr>))"

section \<open>Repository (internal/repository/user_repository.go)\<close>

definition repo_FindAll :: "db \<Rightarrow> (go_error + User list) \<times> db" where
  "repo_FindAll d =
     (case gorm_Find d of
        (Inl e, d') \<Rightarrow> (Inl (NewDatabaseError ''Failed to retrieve users'' (Some e)), d')
      | (Inr us, d') \<Rightarrow> (Inr us, d'))"

definition repo_FindByID :: "db \<Rightarrow> nat \<Rightarrow> (go_error + User) \<times> db" where
  "repo_FindByID d i =
     (case gorm_First_id d i of
        (Inl e, d') \<Rightarrow>
          (if e = ErrRecordNotFound
           then (Inl (NewResourceNotFoundError ''User not found''
                        (Some [(''id'', DUint i)]) (Some e)), d')
           else (Inl (NewDatabaseError ''Failed to retrieve user'' (Some e)), d'))
      | (Inr u, d') \<Rightarrow> (Inr u, d'))"

definition repo_FindByEmail :: "db \<Rightarrow> string \<Rightarrow> (go_error + User) \<times> db" where
  "repo_FindByEmail d e =
     (case gorm_First_email d e of
        (Inl err, d') \<Rightarrow>
          (if err = ErrRecordNotFound
           then (Inl (NewResourceNotFoundError ''User not found''
                        (Some [(''email'', DString e)]) (Some err)), d')
           else (Inl (NewDatabaseError ''Failed to retrieve user by email'' (Some err)), d'))
      | (Inr u, d') \<Rightarrow> (Inr u, d'))"

text \<open>
  \<open>Create\<close> returns only an error in the source and fills the caller's struct through
  the pointer; here the filled struct is the \<open>Inr\<close> result. The test
  \<open>err == nil && existingUser != nil\<close> is the \<open>Inr\<close> branch of the lookup: every other
  outcome of \<open>FindByEmail\<close>, not-found or not, goes on to the insert.
\<close>

definition repo_Create :: "db \<Rightarrow> User \<Rightarrow> (go_error + User) \<times> db" where
  "repo_Create d user =
     (case repo_FindByEmail d (Email user) of
        (Inr existingUser, d') \<Rightarrow>
          (Inl (NewDuplicateResourceError ''User with this email already exists''
                  (Some [(''email'', DString (Email user))]) None), d')
      | (Inl err, d') \<Rightarrow>
          (case gorm_Create d' user of
             (Inl e, d'') \<Rightarrow> (Inl (NewDatabaseError ''Failed to create user'' (Some e)), d'')
           | (Inr u, d'') \<Rightarrow> (Inr u, d'')))"

definition repo_Update :: "db \<Rightarrow> User \<Rightarrow> (go_error + User) \<times> db" where
  "repo_Update d user =
     (case gorm_Save d user of
        (Inl e, d') \<Rightarrow> (Inl (NewDatabaseError ''Failed to update user'' (Some e)), d')
      | (Inr (rowsAffected, u), d') \<Rightarrow>
          (if rowsAffected = 0
           then (Inl (NewResourceNotFoundError ''User not found''
                        (Some [(''id'', DUint (ID user))]) None), d')
           else (Inr u, d')))"

definition repo_Delete :: "db \<Rightarrow> nat \<Rightarrow> (go_error + unit) \<times> db" where
  "repo_Delete d i =
     (case gorm_Delete d i of
        (Inl e, d') \<Rightarrow> (Inl (NewDatabaseError ''Failed to delete user'' (Some e)), d')
      | (Inr rowsAffected, d') \<Rightarrow>
          (if rowsAffected = 0
           then (Inl (NewResourceNotFoundError ''User not found''
                        (Some [(''id'', DUint i)]) None), d')
           else (Inr (), d')))"

section \<open>Service (internal/service)\<close>

text \<open>
  A Go slice is nil or holds elements; \<open>append\<close> to a nil slice allocates. The
  response slice of \<open>GetAllUsers\<close> is declared with \<open>var\<close>, so it starts nil.
\<close>

datatype 'a slice = NilSlice | Slice "'a list"

fun append_slice :: "'a slice \<Rightarrow> 'a \<Rightarrow> 'a slice" where
  "append_slice NilSlice x = Slice [x]"
| "append_slice (Slice xs) x = Slice (xs @ [x])"

fun elems :: "'a slice \<Rightarrow> 'a list" where
  "elems NilSlice = []"
| "elems (Slice xs) = xs"

text \<open>
  Two library functions are parameters of the model: \<open>bcrypt.GenerateFromPassword\<close> at
  the default cost (the salt is drawn inside the library, so the function stands for
  the outcome of the call at hand) and the syntactic e-mail test of the validator.
\<close>

record env =
  bcrypt_GenerateFromPassword :: "string \<Rightarrow> go_error + string"
  email_ok :: "string \<Rightarrow> bool"

definition svc_GetAllUsers :: "db \<Rightarrow> (go_error + UserResponse slice) \<times> db" where
  "svc_GetAllUsers d =
     (case repo_FindAll d of
        (Inl err, d') \<Rightarrow> (Inl err, d')
      | (Inr us, d') \<Rightarrow>
          (Inr (foldl (\<lambda>response user. append_slice response (ToResponse user)) NilSlice us), d'))"

definition svc_GetUserByID :: "db \<Rightarrow> nat \<Rightarrow> (go_error + UserResponse) \<times> db" where
  "svc_GetUserByID d i =
     (case repo_FindByID d i of
        (Inl err, d') \<Rightarrow> (Inl err, d')
      | (Inr user, d') \<Rightarrow> (Inr (ToResponse user), d'))"

definition svc_CreateUser :: "env \<Rightarrow> db \<Rightarrow> UserCreate \<Rightarrow> (go_error + UserResponse) \<times> db" where
  "svc_CreateUser lib d input =
     (case bcrypt_GenerateFromPassword lib (cPassword input) of
        Inl err \<Rightarrow> (Inl (NewInternalError ''Failed to process password'' (Some err)), d)
      | Inr hashedPassword \<Rightarrow>
          (let user0 = \<lparr>ID = 0, Name = cName input, Email = cEmail input,
                        Password = hashedPassword, Role = cRole input, Active = True,
                        CreatedAt = 0, UpdatedAt = 0, DeletedAt = None\<rparr>;
               user = (if Role user0 = [] then user0\<lparr>Role := ''user''\<rparr> else user0)
           in case repo_Create d user of
                (Inl err, d') \<Rightarrow> (Inl err, d')
              | (Inr created, d') \<Rightarrow> (Inr (ToResponse created), d')))"

text \<open>The field updates of \<open>UpdateUser\<close>, in the order of the source; only the
  password branch can fail.\<close>

definition apply_update :: "env \<Rightarrow> UserUpdate \<Rightarrow> User \<Rightarrow> go_error + User" where
  "apply_update lib input user =
     (let u1 = (case uName input of Some n \<Rightarrow> user\<lparr>Name := n\<rparr> | None \<Rightarrow> user);
          u2 = (case uEmail input of Some e \<Rightarrow> u1\<lparr>Email := e\<rparr> | None \<Rightarrow> u1)
      in case (case uPassword input of
                 Some p \<Rightarrow>
                   (case bcrypt_GenerateFromPassword lib p of
                      Inl err \<Rightarrow> Inl (NewInternalError ''Failed to process password'' (Some err))
                    | Inr hashedPassword \<Rightarrow> Inr (u2\<lparr>Password := hashedPassword\<rparr>))
               | None \<Rightarrow> Inr u2) of
           Inl err \<Rightarrow> Inl err
         | Inr u3 \<Rightarrow>
             (let u4 = (case uRole input of Some r \<Rightarrow> u3\<lparr>Role := r\<rparr> | None \<Rightarrow> u3);
                  u5 = (case uActive input of Some a \<Rightarrow> u4\<lparr>Active := a\<rparr> | None \<Rightarrow> u4)
              in Inr u5))"

definition svc_UpdateUser ::
  "env \<Rightarrow> db \<Rightarrow> nat \<Rightarrow> UserUpdate \<Rightarrow> (go_error + UserResponse) \<times> db" where
  "svc_UpdateUser lib d i input =
     (case repo_FindByID d i of
        (Inl err, d') \<Rightarrow> (Inl err, d')
      | (Inr user, d') \<Rightarrow>
          (case apply_update lib input user of
             Inl err \<Rightarrow> (Inl err, d')
           | Inr user' \<Rightarrow>
               (case repo_Update d' user' of
                  (Inl err, d'') \<Rightarrow> (Inl err, d'')
                | (Inr saved, d'') \<Rightarrow> (Inr (ToResponse saved), d''))))"

definition svc_DeleteUser :: "db \<Rightarrow> nat \<Rightarrow> (go_error + unit) \<times> db" where
  "svc_DeleteUser d i =
     (case repo_Delete d i of
        (Inl err, d') \<Rightarrow> (Inl err, d')
      | (Inr u, d') \<Rightarrow> (Inr (), d'))"

section \<open>Controller (internal/controller/v1/user_controller.go)\<close>

text \<open>What a handler writes: the status and the JSON document, if any. A nil slice
  is encoded as \<open>null\<close>, any other slice as an array.\<close>

datatype payload =
    NoBody
  | JNull
  | JError error_json
  | JUser UserResponse
  | JUsers "UserResponse list"

record response =
  status :: nat
  body :: payload

definition marshal_users :: "UserResponse slice \<Rightarrow> payload" where
  "marshal_users s = (case s of NilSlice \<Rightarrow> JNull | Slice xs \<Rightarrow> JUsers xs)"

definition handleError :: "go_error \<Rightarrow> response" where
  "handleError err =
     (case errors_As err of
        Some appErr \<Rightarrow> \<lparr>status = StatusCode appErr, body = JError (marshal_AppError appErr)\<rparr>
      | None \<Rightarrow>
          \<lparr>status = StatusInternalServerError,
           body = JError (marshal_AppError
                            (NewInternalError ''An unexpected error occurred'' (Some err)))\<rparr>)"

text \<open>
  \<open>strconv.ParseUint(idParam, 10, 32)\<close>: a non-empty string of decimal digits, no
  sign and no underscore, whose value fits 32 bits.
\<close>

definition is_digit :: "char \<Rightarrow> bool" where
  "is_digit c = (48 \<le> (of_char c :: nat) \<and> (of_char c :: nat) \<le> 57)"

definition digits_value :: "string \<Rightarrow> nat" where
  "digits_value s = foldl (\<lambda>n c. 10 * n + ((of_char c :: nat) - 48)) 0 s"

definition ParseUint32 :: "string \<Rightarrow> go_error + nat" where
  "ParseUint32 s =
     (if s = [] \<or> \<not> list_all is_digit s then Inl (ErrorString ''invalid syntax'')
      else if digits_value s \<ge> 2 ^ 32 then Inl (ErrorString ''value out of range'')
      else Inr (digits_value s))"

definition parseIDParam :: "string \<Rightarrow> go_error + nat" where
  "parseIDParam idParam =
     (case ParseUint32 idParam of Inl err \<Rightarrow> Inl err | Inr i \<Rightarrow> Inr i)"

text \<open>
  \<open>ShouldBindJSON\<close>: the body either fails to decode into the struct (syntax error,
  wrong type, empty body) or decodes, absent keys leaving zero values and nil
  pointers; then the \<open>binding\<close> tags are checked. \<open>required\<close> on a string is
  non-emptiness, \<open>min=6\<close> counts runes, \<open>oneof=admin user\<close> is membership, and
  \<open>omitempty\<close> skips the rest when a string is empty or a pointer is nil; behind
  a pointer that is not nil the remaining tags are checked, the empty string included.
\<close>

datatype 'a json_request = Undecodable string | Decoded 'a

definition RuneCountInString :: "string \<Rightarrow> nat" where
  "RuneCountInString s =
     length (filter (\<lambda>c. \<not> (128 \<le> (of_char c :: nat) \<and> (of_char c :: nat) < 192)) s)"

definition oneof_admin_user :: "string \<Rightarrow> bool" where
  "oneof_admin_user r = (r = ''admin'' \<or> r = ''user'')"

definition valid_UserCreate :: "env \<Rightarrow> UserCreate \<Rightarrow> bool" where
  "valid_UserCreate lib input =
     (cName input \<noteq> []
      \<and> cEmail input \<noteq> [] \<and> email_ok lib (cEmail input)
      \<and> cPassword input \<noteq> [] \<and> 6 \<le> RuneCountInString (cPassword input)
      \<and> (cRole input = [] \<or> oneof_admin_user (cRole input)))"

definition valid_UserUpdate :: "env \<Rightarrow> UserUpdate \<Rightarrow> bool" where
  "valid_UserUpdate lib input =
     ((case uEmail input of None \<Rightarrow> True | Some e \<Rightarrow> email_ok lib e)
      \<and> (case uPassword input of None \<Rightarrow> True | Some p \<Rightarrow> 6 \<le> RuneCountInString p)
      \<and> (case uRole input of None \<Rightarrow> True | Some r \<Rightarrow> oneof_admin_user r))"

definition ShouldBindJSON :: "('a \<Rightarrow> bool) \<Rightarrow> 'a json_request \<Rightarrow> go_error + 'a" where
  "ShouldBindJSON valid req =
     (case req of
        Undecodable msg \<Rightarrow> Inl (ErrorString msg)
      | Decoded input \<Rightarrow>
          if valid input then Inr input else Inl (ErrorString ''validation failed''))"

definition ctl_GetAllUsers :: "db \<Rightarrow> response \<times> db" where
  "ctl_GetAllUsers d =
     (case svc_GetAllUsers d of
        (Inl err, d') \<Rightarrow> (handleError err, d')
      | (Inr us, d') \<Rightarrow> (\<lparr>status = StatusOK, body = marshal_users us\<rparr>, d'))"

definition ctl_GetUserByID :: "db \<Rightarrow> string \<Rightarrow> response \<times> db" where
  "ctl_GetUserByID d idParam =
     (case parseIDParam idParam of
        Inl err \<Rightarrow>
          (\<lparr>status = StatusBadRequest,
            body = JError (marshal_AppError
                             (NewInvalidInputError ''Invalid ID format'' None (Some err)))\<rparr>, d)
      | Inr i \<Rightarrow>
          (case svc_GetUserByID d i of
             (Inl err, d') \<Rightarrow> (handleError err, d')
           | (Inr user, d') \<Rightarrow> (\<lparr>status = StatusOK, body = JUser user\<rparr>, d')))"

definition ctl_CreateUser :: "env \<Rightarrow> db \<Rightarrow> UserCreate json_request \<Rightarrow> response \<times> db" where
  "ctl_CreateUser lib d req =
     (case ShouldBindJSON (valid_UserCreate lib) req of
        Inl err \<Rightarrow>
          (\<lparr>status = StatusBadRequest,
            body = JError (marshal_AppError
                             (NewInvalidInputError ''Invalid input'' None (Some err)))\<rparr>, d)
      | Inr input \<Rightarrow>
          (case svc_CreateUser lib d input of
             (Inl err, d') \<Rightarrow> (handleError err, d')
           | (Inr user, d') \<Rightarrow> (\<lparr>status = StatusCreated, body = JUser user\<rparr>, d')))"

definition ctl_UpdateUser ::
  "env \<Rightarrow> db \<Rightarrow> string \<Rightarrow> UserUpdate json_request \<Rightarrow> response \<times> db" where
  "ctl_UpdateUser lib d idParam req =
     (case parseIDParam idParam of
        Inl err \<Rightarrow>
          (\<lparr>status = StatusBadRequest,
            body = JError (marshal_AppError
                             (NewInvalidInputError ''Invalid ID format'' None (Some err)))\<rparr>, d)
      | Inr i \<Rightarrow>
          (case ShouldBindJSON (valid_UserUpdate lib) req of
             Inl err \<Rightarrow>
               (\<lparr>status = StatusBadRequest,
                 body = JError (marshal_AppError
                                  (NewInvalidInputError ''Invalid input'' None (Some err)))\<rparr>, d)
           | Inr input \<Rightarrow>
               (case svc_UpdateUser lib d i input of
                  (Inl err, d') \<Rightarrow> (handleError err, d')
                | (Inr user, d') \<Rightarrow> (\<lparr>status = StatusOK, body = JUser user\<rparr>, d'))))"

definition ctl_DeleteUser :: "db \<Rightarrow> string \<Rightarrow> response \<times> db" where
  "ctl_DeleteUser d idParam =
     (case parseIDParam idParam of
        Inl err \<Rightarrow>
          (\<lparr>status = StatusBadRequest,
            body = JError (marshal_AppError
                             (NewInvalidInputError ''Invalid ID format'' None (Some err)))\<rparr>, d)
      | Inr i \<Rightarrow>
          (case svc_DeleteUser d i of
             (Inl err, d') \<Rightarrow> (handleError err, d')
           | (Inr u, d') \<Rightarrow> (\<lparr>status = StatusNoContent, body = NoBody\<rparr>, d')))"

section \<open>Item handlers (handlers/item.go)\<close>

text \<open>
  The items table of the flat variant; \<open>Price\<close> is a \<open>float64\<close> the handler below
  never reads, so its type is left open. Items have no soft-delete column:
  \<open>db.Delete(&models.Item{}, id)\<close> is \<open>DELETE FROM items WHERE id = ?\<close>, which succeeds
  with \<open>RowsAffected = 0\<close> when no row matches.
\<close>

record 'p Item =
  iID :: nat
  iName :: string
  iPrice :: 'p
  iDescription :: string
  iCreatedAt :: nat
  iUpdatedAt :: nat

record 'p item_db =
  items :: "'p Item list"
  item_faults :: "string option list"
  item_trace :: "int list"

record gorm_result =
  Error :: "go_error option"
  RowsAffected :: nat

definition gorm_Delete_item :: "'p item_db \<Rightarrow> int \<Rightarrow> gorm_result \<times> 'p item_db" where
  "gorm_Delete_item d i =
     (case item_faults d of
        Some msg # fs \<Rightarrow>
          (\<lparr>Error = Some (ErrorString msg), RowsAffected = 0\<rparr>,
           d\<lparr>item_faults := fs, item_trace := item_trace d @ [i]\<rparr>)
      | fs \<Rightarrow>
          (\<lparr>Error = None,
            RowsAffected = length (filter (\<lambda>r. int (iID r) = i) (items d))\<rparr>,
           d\<lparr>items := filter (\<lambda>r. int (iID r) \<noteq> i) (items d),
             item_faults := tl fs, item_trace := item_trace d @ [i]\<rparr>))"

text \<open>
  \<open>strconv.Atoi\<close>: an optional sign, then a non-empty string of decimal digits, the
  value within the 64-bit \<open>int\<close>.
\<close>

definition Atoi :: "string \<Rightarrow> go_error + int" where
  "Atoi s =
     (let neg = (s \<noteq> [] \<and> hd s = CHR ''-'');
          ds = (if s \<noteq> [] \<and> (hd s = CHR ''+'' \<or> hd s = CHR ''-'') then tl s else s);
          v = (if neg then - int (digits_value ds) else int (digits_value ds))
      in if ds = [] \<or> \<not> list_all is_digit ds then Inl (ErrorString ''invalid syntax'')
         else if v < - (2 ^ 63) \<or> 2 ^ 63 \<le> v then Inl (ErrorString ''value out of range'')
         else Inr v)"

datatype item_payload =
    JErrorText string
  | JDeleted int

record item_response =
  istatus :: nat
  ibody :: item_payload

definition DeleteItem :: "'p item_db \<Rightarrow> string \<Rightarrow> item_response \<times> 'p item_db" where
  "DeleteItem d idParam =
     (case Atoi idParam of
        Inl err \<Rightarrow> (\<lparr>istatus = StatusBadRequest, ibody = JErrorText ''Invalid ID''\<rparr>, d)
      | Inr i \<Rightarrow>
          (case gorm_Delete_item d i of
             (res, d') \<Rightarrow>
               (case Error res of
                  Some err \<Rightarrow>
                    (\<lparr>istatus = StatusInternalServerError,
                      ibody = JErrorText ''Database error''\<rparr>, d')
                | None \<Rightarrow> (\<lparr>istatus = StatusOK, ibody = JDeleted i\<rparr>, d'))))"

section \<open>Routing and properties of the store\<close>

text \<open>The five routes \<open>Register\<close> mounts under \<open>/users\<close>, with the path parameter
  and the body each one reads.\<close>

datatype request =
    GET_users
  | GET_user string
  | POST_users "UserCreate json_request"
  | PUT_user string "UserUpdate json_request"
  | DELETE_user string

fun Register :: "env \<Rightarrow> db \<Rightarrow> request \<Rightarrow> response \<times> db" where
  "Register lib d GET_users = ctl_GetAllUsers d"
| "Register lib d (GET_user idParam) = ctl_GetUserByID d idParam"
| "Register lib d (POST_users req) = ctl_CreateUser lib d req"
| "Register lib d (PUT_user idParam req) = ctl_UpdateUser lib d idParam req"
| "Register lib d (DELETE_user idParam) = ctl_DeleteUser d idParam"

text \<open>Requests served one after the other, each on the store the last one left.\<close>

fun serve :: "env \<Rightarrow> db \<Rightarrow> request list \<Rightarrow> db" where
  "serve lib d [] = d"
| "serve lib d (req # reqs) = serve lib (snd (Register lib d req)) reqs"

text \<open>The store answers the next \<open>n\<close> statements: none of them is scheduled to fail.\<close>

definition responsive :: "nat \<Rightarrow> db \<Rightarrow> bool" where
  "responsive n d = list_all (\<lambda>f. f = None) (take n (faults d))"

text \<open>Every stored row, soft-deleted or not, has one of the two roles.\<close>

definition role_ok :: "User \<Rightarrow> bool" where
  "role_ok u = oneof_admin_user (Role u)"

definition roles_ok :: "db \<Rightarrow> bool" where
  "roles_ok d = list_all role_ok (users d)"

text \<open>The body every handler sends for a request it rejects before calling the
  service: status 400, the InvalidInput code, no details.\<close>

definition invalid_input_response :: "string \<Rightarrow> response" where
  "invalid_input_response msg =
     \<lparr>status = 400,
      body = JError \<lparr>code = ''INVALID_INPUT'', message = msg, details = None\<rparr>\<rparr>"

text \<open>What an update of the name alone must leave as it was, row by row: the
  identifier, the e-mail, the role, the active flag, the password hash and the
  soft-delete marker.\<close>

definition kept_fields :: "User \<Rightarrow> nat \<times> string \<times> string \<times> bool \<times> string \<times> nat option" where
  "kept_fields u = (ID u, Email u, Role u, Active u, Password u, DeletedAt u)"

section \<open>Sample data\<close>

text \<open>A store with one user, an empty store, stand-ins for the two library
  functions, and the request bodies used to instantiate the theorems below.\<close>

definition ann :: User where
  "ann = \<lparr>ID = 1, Name = ''Ann'', Email = ''ann@x.com'', Password = ''$2a$10$secret1'',
          Role = ''user'', Active = True, CreatedAt = 5, UpdatedAt = 5, DeletedAt = None\<rparr>"

definition one_user_db :: db where
  "one_user_db = \<lparr>users = [ann], user_seq = 1, now = 9, faults = [], trace = []\<rparr>"

definition empty_db :: db where
  "empty_db = \<lparr>users = [], user_seq = 0, now = 9, faults = [], trace = []\<rparr>"

definition sample_lib :: env where
  "sample_lib = \<lparr>bcrypt_GenerateFromPassword = (\<lambda>p. Inr (''$2a$10$'' @ p)),
                 email_ok = (\<lambda>e. CHR ''@'' \<in> set e)\<rparr>"

definition bob_create :: UserCreate where
  "bob_create = \<lparr>cName = ''Bob'', cEmail = ''bob@x.com'', cPassword = ''hunter22'',
                 cRole = []\<rparr>"

definition rename_only :: UserUpdate where
  "rename_only = \<lparr>uName = Some ''Anna'', uEmail = None, uPassword = None, uRole = None,
                  uActive = None\<rparr>"

definition ann_deleted :: db where
  "ann_deleted = \<lparr>users = [ann\<lparr>DeletedAt := Some 9\<rparr>], user_seq = 1, now = 9, faults = [],
                   trace = [SoftDelete 1]\<rparr>"

definition flaky_db :: db where
  "flaky_db = \<lparr>users = [ann], user_seq = 1, now = 9, faults = [Some ''connection reset''],
                trace = []\<rparr>"

definition three_requests :: "request list" where
  "three_requests =
     [POST_users (Decoded bob_create),
      PUT_user ''1'' (Decoded (rename_only\<lparr>uRole := Some ''admin''\<rparr>)),
      POST_users (Decoded (bob_create\<lparr>cEmail := ''eve@x.com'', cRole := ''root''\<rparr>))]"

definition bob_response :: UserResponse where
  "bob_response = \<lparr>rID = 1, rName = ''Bob'', rEmail = ''bob@x.com'', rRole = ''user'',
                   rActive = True, rCreatedAt = 9, rUpdatedAt = 9\<rparr>"

definition one_item_db :: "unit item_db" where
  "one_item_db =
     \<lparr>items = [\<lparr>iID = 1, iName = ''Test Item 1'', iPrice = (),
                 iDescription = ''Description 1'', iCreatedAt = 5, iUpdatedAt = 5\<rparr>],
      item_faults = [], item_trace = []\<rparr>"

section \<open>Auxiliary facts\<close>

lemma errors_As_wrap_all: "errors_As (wrap_all ws e) = errors_As e"
  by (induction ws) simp_all

lemma untyped_errors_As: "untyped e \<Longrightarrow> errors_As e = None"
  by (induction e) simp_all

lemma typed_errors_As:
  "\<not> untyped e \<Longrightarrow> \<exists>s c m d x. errors_As e = Some (AppError s c m d x)"
  by (induction e) simp_all

lemma run_stmt_responsive:
  "responsive (Suc n) d \<Longrightarrow>
     run_stmt st d = (None, d\<lparr>faults := tl (faults d), trace := trace d @ [st]\<rparr>)
     \<and> responsive n (d\<lparr>faults := tl (faults d), trace := trace d @ [st]\<rparr>)"
  by (cases "faults d") (auto simp: run_stmt_def responsive_def)

lemma run_stmt_fields:
  "run_stmt st d = (r, d') \<Longrightarrow>
     users d' = users d \<and> user_seq d' = user_seq d \<and> now d' = now d
     \<and> trace d' = trace d @ [st]"
  by (cases "faults d") (auto simp: run_stmt_def)


section \<open>Error mapping at the handler boundary\<close>

text \<open>
  Claim C1. Whatever error the service hands to \<open>handleError\<close>: when it is one of the
  seven typed kinds, built by that kind's constructor, bare or under any number of
  wrappers, the response has the kind's fixed status and the body
  \<open>{code, message, details}\<close> of that error, with no trace of the wrapped cause; when
  no \<open>*AppError\<close> is on its chain, the response is 500 with code \<open>INTERNAL_ERROR\<close> and
  one fixed message, the same for every cause; and an error that is not of the second
  sort carries an \<open>*AppError\<close> whose status, code, message and details are what is sent.
\<close>

theorem handleError_maps_kinds:
  "handleError (wrap_all ws (new_of_kind k m d cause)) =
     \<lparr>status = kind_status k,
      body = JError \<lparr>code = kind_code k, message = m, details = kind_details k d\<rparr>\<rparr>
   \<and> (untyped e \<longrightarrow>
        handleError e =
          \<lparr>status = 500,
           body = JError \<lparr>code = ''INTERNAL_ERROR'',
                          message = ''An unexpected error occurred'', details = None\<rparr>\<rparr>)
   \<and> (\<not> untyped e \<longrightarrow>
        (\<exists>s c m' d' x. errors_As e = Some (AppError s c m' d' x)
           \<and> handleError e =
               \<lparr>status = s, body = JError \<lparr>code = c, message = m', details = d'\<rparr>\<rparr>))"
proof (intro conjI impI)
  show "handleError (wrap_all ws (new_of_kind k m d cause)) =
     \<lparr>status = kind_status k,
      body = JError \<lparr>code = kind_code k, message = m, details = kind_details k d\<rparr>\<rparr>"
    by (cases k)
       (simp_all add: handleError_def errors_As_wrap_all new_error_defs marshal_AppError_def
          http_status_defs err_code_defs)
next
  assume "untyped e"
  then have "errors_As e = None" by (rule untyped_errors_As)
  then show "handleError e =
          \<lparr>status = 500,
           body = JError \<lparr>code = ''INTERNAL_ERROR'',
                          message = ''An unexpected error occurred'', details = None\<rparr>\<rparr>"
    by (simp add: handleError_def new_error_defs marshal_AppError_def
          http_status_defs err_code_defs)
next
  assume "\<not> untyped e"
  then obtain s c m' d' x where "errors_As e = Some (AppError s c m' d' x)"
    using typed_errors_As by blast
  then show "\<exists>s c m' d' x. errors_As e = Some (AppError s c m' d' x)
           \<and> handleError e =
               \<lparr>status = s, body = JError \<lparr>code = c, message = m', details = d'\<rparr>\<rparr>"
    by (simp add: handleError_def marshal_AppError_def)
qed

theorem handleError_maps_kinds_witness:
  "handleError (WrapError ''service'' (NewResourceNotFoundError ''User not found''
       (Some [(''id'', DUint 7)]) (Some ErrRecordNotFound))) =
     \<lparr>status = 404,
      body = JError \<lparr>code = ''RESOURCE_NOT_FOUND'', message = ''User not found'',
                     details = Some [(''id'', DUint 7)]\<rparr>\<rparr>
   \<and> untyped (WrapError ''tx'' (ErrorString ''connection refused''))
   \<and> handleError (WrapError ''tx'' (ErrorString ''connection refused'')) =
          \<lparr>status = 500,
           body = JError \<lparr>code = ''INTERNAL_ERROR'',
                          message = ''An unexpected error occurred'', details = None\<rparr>\<rparr>"
  using handleError_maps_kinds [of "[''service'']" ResourceNotFound "''User not found''"
          "Some [(''id'', DUint 7)]" "Some ErrRecordNotFound"
          "WrapError ''tx'' (ErrorString ''connection refused'')"]
  by simp

section \<open>Creating a user\<close>



section \<open>The duplicate pre-check of the gateway\<close>

text \<open>
  Claim C3. When a row that is not soft-deleted already has the e-mail of the user to
  create, and the store answers the lookup, the gateway's \<open>Create\<close> issues the
  \<open>FindByEmail\<close> query and nothing else, finds the row, and fails with the
  DuplicateResource error of status 409; no insert statement is issued and the table
  and the identifier sequence are as before.
\<close>

theorem Create_duplicate_email:
  assumes "responsive 1 d"
    and "\<exists>r \<in> set (users d). live r \<and> Email r = Email user"
  shows "repo_Create d user =
           (Inl (AppError 409 ''DUPLICATE_RESOURCE'' ''User with this email already exists''
                   (Some [(''email'', DString (Email user))]) None),
            d\<lparr>faults := tl (faults d), trace := trace d @ [SelectByEmail (Email user)]\<rparr>)"
proof -
  let ?d' = "d\<lparr>faults := tl (faults d), trace := trace d @ [SelectByEmail (Email user)]\<rparr>"
  have run: "run_stmt (SelectByEmail (Email user)) d = (None, ?d')"
    using assms(1) run_stmt_responsive [of 0 d] by simp
  from assms(2) have "filter (\<lambda>u. live u \<and> Email u = Email user) (users d) \<noteq> []"
    by (simp add: filter_empty_conv)
  then obtain u us where "filter (\<lambda>u. live u \<and> Email u = Email user) (users d) = u # us"
    by (cases "filter (\<lambda>u. live u \<and> Email u = Email user) (users d)") auto
  with run have "gorm_First_email d (Email user) = (Inr u, ?d')"
    by (simp add: gorm_First_email_def)
  then show ?thesis
    by (simp add: repo_Create_def repo_FindByEmail_def new_error_defs
          http_status_defs err_code_defs)
qed

theorem Create_duplicate_email_witness:
  "responsive 1 one_user_db
   \<and> (\<exists>r \<in> set (users one_user_db). live r \<and> Email r = Email (ann\<lparr>ID := 0, Name := ''Bob''\<rparr>))
   \<and> repo_Create one_user_db (ann\<lparr>ID := 0, Name := ''Bob''\<rparr>) =
           (Inl (AppError 409 ''DUPLICATE_RESOURCE'' ''User with this email already exists''
                   (Some [(''email'', DString ''ann@x.com'')]) None),
            one_user_db\<lparr>trace := [SelectByEmail ''ann@x.com'']\<rparr>)"
proof -
  have a: "responsive 1 one_user_db" by (simp add: responsive_def one_user_db_def)
  have b: "\<exists>r \<in> set (users one_user_db).
             live r \<and> Email r = Email (ann\<lparr>ID := 0, Name := ''Bob''\<rparr>)"
    by (simp add: one_user_db_def ann_def live_def)
  show ?thesis
    using a b Create_duplicate_email [OF a b]
    by (simp add: one_user_db_def ann_def)
qed

section \<open>Partial update\<close>

lemma FindByID_result:
  assumes "repo_FindByID d i = (res, d')"
  shows "users d' = users d \<and> now d' = now d
         \<and> (\<forall>u. res = Inr u \<longrightarrow> u \<in> set (users d) \<and> live u \<and> ID u = i)"
proof -
  obtain f d1 where run: "run_stmt (SelectByID i) d = (f, d1)"
    by (cases "run_stmt (SelectByID i) d")
  then have same: "users d1 = users d" "now d1 = now d"
    using run_stmt_fields by blast+
  show ?thesis
  proof (cases f)
    case (Some msg)
    with assms run same show ?thesis
      by (auto simp: repo_FindByID_def gorm_First_id_def)
  next
    case None
    show ?thesis
    proof (cases "filter (\<lambda>u. live u \<and> ID u = i) (users d)")
      case Nil
      with assms run same None show ?thesis
        by (auto simp: repo_FindByID_def gorm_First_id_def)
    next
      case (Cons u us)
      then have "u \<in> set (filter (\<lambda>u. live u \<and> ID u = i) (users d))" by simp
      then have "u \<in> set (users d) \<and> live u \<and> ID u = i" by simp
      with assms run same None Cons show ?thesis
        by (auto simp: repo_FindByID_def gorm_First_id_def)
    qed
  qed
qed

lemma replace_row_kept:
  assumes "distinct (map ID rows)" and "u \<in> set rows" and "kept_fields u' = kept_fields u"
  shows "map kept_fields (replace_row u' rows) = map kept_fields rows"
proof -
  have inj: "inj_on ID (set rows)" using assms(1) by (simp add: distinct_map)
  have id: "ID u' = ID u" using assms(3) by (simp add: kept_fields_def)
  have "\<And>r. r \<in> set rows \<Longrightarrow> kept_fields (if ID r = ID u' then u' else r) = kept_fields r"
  proof -
    fix r assume r: "r \<in> set rows"
    show "kept_fields (if ID r = ID u' then u' else r) = kept_fields r"
    proof (cases "ID r = ID u'")
      case True
      with id inj r assms(2) have "r = u" by (auto dest: inj_onD)
      with True assms(3) show ?thesis by simp
    next
      case False
      then show ?thesis by simp
    qed
  qed
  then show ?thesis by (simp add: replace_row_def)
qed

lemma insert_row_conflict:
  "\<exists>r \<in> set (users d). Email r = Email u \<Longrightarrow> insert_row d u = (res, d') \<Longrightarrow> users d' = users d"
  by (auto simp: insert_row_def split: if_splits)

lemma Save_kept:
  assumes dist: "distinct (map ID (users d))"
    and mem: "u \<in> set (users d)" and lv: "live u"
    and same: "kept_fields u' = kept_fields u"
    and save: "gorm_Save d u' = (res, d')"
  shows "map kept_fields (users d') = map kept_fields (users d)"
proof (cases "ID u' = 0")
  case True
  obtain f d1 where run: "run_stmt (Insert u') d = (f, d1)"
    by (cases "run_stmt (Insert u') d")
  then have us: "users d1 = users d" using run_stmt_fields by blast
  have em: "Email u' = Email u" using same by (simp add: kept_fields_def)
  show ?thesis
  proof (cases f)
    case (Some msg)
    with True run save us show ?thesis
      by (auto simp: gorm_Save_def gorm_Create_def)
  next
    case None
    obtain r2 d2 where ins: "insert_row d1 u' = (r2, d2)" by (cases "insert_row d1 u'")
    have "\<exists>r \<in> set (users d1). Email r = Email u'" using mem us em by auto
    then have "users d2 = users d1" using ins insert_row_conflict by blast
    with True run save None ins us show ?thesis
      by (auto simp: gorm_Save_def gorm_Create_def split: sum.splits)
  qed
next
  case False
  let ?u1 = "u'\<lparr>UpdatedAt := now d\<rparr>"
  obtain f d1 where run: "run_stmt (UpdateRow ?u1) d = (f, d1)"
    by (cases "run_stmt (UpdateRow ?u1) d")
  then have us: "users d1 = users d" using run_stmt_fields by blast
  have id: "ID u' = ID u" using same by (simp add: kept_fields_def)
  have k1: "kept_fields ?u1 = kept_fields u" using same by (simp add: kept_fields_def)
  show ?thesis
  proof (cases f)
    case (Some msg)
    with False run save us show ?thesis
      by (auto simp: gorm_Save_def Let_def)
  next
    case None
    have ex: "\<exists>r \<in> set (users d1). live r \<and> ID r = ID u'"
      using mem lv id us by auto
    show ?thesis
    proof (cases "\<exists>r \<in> set (users d1). ID r \<noteq> ID u' \<and> Email r = Email u'")
      case True
      with False run save None ex us show ?thesis
        by (auto simp: gorm_Save_def Let_def)
    next
      case nc: False
      from False run save None ex nc
      have "users d' = replace_row ?u1 (users d1)"
        by (auto simp: gorm_Save_def Let_def)
      then show ?thesis
        using replace_row_kept [OF dist mem k1] us by simp
    qed
  qed
qed


lemma filter_key:
  "distinct (map ID rows) \<Longrightarrow> u \<in> set rows \<Longrightarrow> live u \<Longrightarrow>
     filter (\<lambda>r. live r \<and> ID r = ID u) rows = [u]"
  by (induction rows) (auto simp: filter_empty_conv image_iff)

lemma apply_update_rename:
  "apply_update lib \<lparr>uName = Some n, uEmail = None, uPassword = None, uRole = None,
       uActive = None\<rparr> u = Inr (u\<lparr>Name := n\<rparr>)"
  by (simp add: apply_update_def)

text \<open>
  Claim C4. \<open>UpdateUser\<close> with an input in which only the name is set, on a table
  whose identifiers are distinct: whatever the outcome, every row keeps its e-mail,
  role, active flag and password hash (and its identifier and soft-delete marker);
  and when the store answers the two statements and \<open>u\<close> is the live row with the
  identifier, the call succeeds and that row becomes \<open>u\<close> with the new name and the
  modification time stamped, nothing else.
\<close>

theorem UpdateUser_name_only:
  assumes keys: "distinct (map ID (users d))"
    and upd: "svc_UpdateUser lib d i
                \<lparr>uName = Some n, uEmail = None, uPassword = None, uRole = None,
                 uActive = None\<rparr> = (res, d')"
  shows "map kept_fields (users d') = map kept_fields (users d)
      \<and> (responsive 2 d \<and> distinct (map Email (users d)) \<and> 0 < i
           \<and> u \<in> set (users d) \<and> live u \<and> ID u = i
         \<longrightarrow> res = Inr (ToResponse (u\<lparr>Name := n, UpdatedAt := now d\<rparr>))
             \<and> users d' = replace_row (u\<lparr>Name := n, UpdatedAt := now d\<rparr>) (users d))"
proof -
  let ?input = "\<lparr>uName = Some n, uEmail = None, uPassword = None, uRole = None,
                 uActive = None\<rparr>"
  obtain r1 d1 where find: "repo_FindByID d i = (r1, d1)" by (cases "repo_FindByID d i")
  note found = FindByID_result [OF find]
  have frame: "map kept_fields (users d') = map kept_fields (users d)"
  proof (cases r1)
    case (Inl err)
    with upd find found show ?thesis by (simp add: svc_UpdateUser_def)
  next
    case (Inr v)
    with found have v: "v \<in> set (users d1)" "live v" by simp_all
    obtain r2 d2 where save: "gorm_Save d1 (v\<lparr>Name := n\<rparr>) = (r2, d2)"
      by (cases "gorm_Save d1 (v\<lparr>Name := n\<rparr>)")
    have "kept_fields (v\<lparr>Name := n\<rparr>) = kept_fields v" by (simp add: kept_fields_def)
    then have "map kept_fields (users d2) = map kept_fields (users d1)"
      using Save_kept [OF _ v(1) v(2) _ save] keys found by simp
    moreover have "users d' = users d2"
      using upd find Inr save
      by (auto simp: svc_UpdateUser_def apply_update_rename repo_Update_def
            split: sum.splits if_splits prod.splits)
    ultimately show ?thesis using found by simp
  qed
  let ?u1 = "u\<lparr>Name := n, UpdatedAt := now d\<rparr>"
  have effect: "res = Inr (ToResponse ?u1) \<and> users d' = replace_row ?u1 (users d)"
    if h: "responsive 2 d \<and> distinct (map Email (users d)) \<and> 0 < i
           \<and> u \<in> set (users d) \<and> live u \<and> ID u = i"
  proof -
  have r2: "responsive (Suc 1) d" using h by (simp add: numeral_2_eq_2)
  define d1 where "d1 = d\<lparr>faults := tl (faults d), trace := trace d @ [SelectByID i]\<rparr>"
  define d2 where "d2 = d1\<lparr>faults := tl (faults d1), trace := trace d1 @ [UpdateRow ?u1]\<rparr>"
  have run1: "run_stmt (SelectByID i) d = (None, d1)" and r1: "responsive (Suc 0) d1"
    using run_stmt_responsive [OF r2, of "SelectByID i"] by (simp_all add: d1_def)
  have run2: "run_stmt (UpdateRow ?u1) d1 = (None, d2)"
    using run_stmt_responsive [OF r1, of "UpdateRow ?u1"] by (simp add: d2_def)
  have "filter (\<lambda>r. live r \<and> ID r = ID u) (users d) = [u]"
    using filter_key [OF keys, of u] h by simp
  then have "filter (\<lambda>r. live r \<and> ID r = i) (users d) = [u]"
    using h by simp
  then have find: "repo_FindByID d i = (Inr u, d1)"
    using run1 h by (simp add: repo_FindByID_def gorm_First_id_def d1_def)
  have ex: "\<exists>r \<in> set (users d2). live r \<and> ID r = ID u"
    using h by (auto simp: d2_def d1_def)
  have inj: "inj_on Email (set (users d))" using h by (simp add: distinct_map)
  have nc: "\<not> (\<exists>r \<in> set (users d2). ID r \<noteq> ID u \<and> Email r = Email u)"
    using inj h by (auto simp: d2_def d1_def dest: inj_onD)
  have save: "gorm_Save d1 (u\<lparr>Name := n\<rparr>) =
                (Inr (1, ?u1), d2\<lparr>users := replace_row ?u1 (users d2)\<rparr>)"
    using h run2 ex nc by (simp add: gorm_Save_def Let_def d1_def)
  have "svc_UpdateUser lib d i ?input =
          (Inr (ToResponse ?u1), d2\<lparr>users := replace_row ?u1 (users d2)\<rparr>)"
    using find save by (simp add: svc_UpdateUser_def apply_update_rename repo_Update_def)
    with upd show ?thesis
      by (auto simp: d2_def d1_def)
  qed
  from frame effect show ?thesis by blast
qed

theorem UpdateUser_name_only_witness:
  "distinct (map ID (users one_user_db))
   \<and> svc_UpdateUser sample_lib one_user_db 1 rename_only =
        (Inr (ToResponse (ann\<lparr>Name := ''Anna'', UpdatedAt := 9\<rparr>)),
         one_user_db\<lparr>users := [ann\<lparr>Name := ''Anna'', UpdatedAt := 9\<rparr>],
                      trace := [SelectByID 1,
                                UpdateRow (ann\<lparr>Name := ''Anna'', UpdatedAt := 9\<rparr>)]\<rparr>)
   \<and> map kept_fields [ann\<lparr>Name := ''Anna'', UpdatedAt := 9\<rparr>] = map kept_fields [ann]
   \<and> responsive 2 one_user_db \<and> distinct (map Email (users one_user_db))
   \<and> ann \<in> set (users one_user_db) \<and> live ann \<and> ID ann = 1"
proof -
  let ?d' = "one_user_db\<lparr>users := [ann\<lparr>Name := ''Anna'', UpdatedAt := 9\<rparr>],
                      trace := [SelectByID 1,
                                UpdateRow (ann\<lparr>Name := ''Anna'', UpdatedAt := 9\<rparr>)]\<rparr>"
  have keys: "distinct (map ID (users one_user_db))"
    by (simp add: one_user_db_def)
  have upd: "svc_UpdateUser sample_lib one_user_db 1
               \<lparr>uName = Some ''Anna'', uEmail = None, uPassword = None, uRole = None,
                uActive = None\<rparr> =
             (Inr (ToResponse (ann\<lparr>Name := ''Anna'', UpdatedAt := 9\<rparr>)), ?d')"
    by (simp add: svc_UpdateUser_def repo_FindByID_def gorm_First_id_def run_stmt_def
          one_user_db_def ann_def live_def apply_update_def repo_Update_def gorm_Save_def
          replace_row_def Let_def)
  have rest: "responsive 2 one_user_db \<and> distinct (map Email (users one_user_db))
      \<and> ann \<in> set (users one_user_db) \<and> live ann \<and> ID ann = 1"
    by (simp add: responsive_def one_user_db_def ann_def live_def)
  have "map kept_fields (users ?d') = map kept_fields (users one_user_db)"
    using UpdateUser_name_only [OF keys upd, of ann] by (rule conjunct1)
  then have frame: "map kept_fields [ann\<lparr>Name := ''Anna'', UpdatedAt := 9\<rparr>] =
      map kept_fields [ann]"
    by (simp add: one_user_db_def)
  from keys upd frame rest show ?thesis
    by (simp add: rename_only_def)
qed

section \<open>Soft delete\<close>

lemma Delete_success:
  assumes "svc_DeleteUser d i = (Inr (), d1)"
  shows "(\<forall>r \<in> set (users d1). \<not> (live r \<and> ID r = i))
         \<and> (\<exists>r \<in> set (users d1). ID r = i \<and> DeletedAt r \<noteq> None)"
proof -
  obtain f d0 where run: "run_stmt (SoftDelete i) d = (f, d0)"
    by (cases "run_stmt (SoftDelete i) d")
  define mark where
    "mark = (\<lambda>u. if live u \<and> ID u = i then u\<lparr>DeletedAt := Some (now d0)\<rparr> else u)"
  define hits where "hits = filter (\<lambda>u. live u \<and> ID u = i) (users d0)"
  have del: "gorm_Delete d i =
      (case f of Some msg \<Rightarrow> (Inl (ErrorString msg), d0)
       | None \<Rightarrow> (Inr (length hits), d0\<lparr>users := map mark (users d0)\<rparr>))"
    using run by (cases f) (simp_all add: gorm_Delete_def mark_def hits_def)
  have ok: "f = None"
  proof (cases f)
    case (Some msg)
    with assms del show ?thesis by (simp add: svc_DeleteUser_def repo_Delete_def)
  qed simp
  have some: "hits \<noteq> []"
  proof
    assume "hits = []"
    with assms del ok show False by (simp add: svc_DeleteUser_def repo_Delete_def)
  qed
  then have "d1 = d0\<lparr>users := map mark (users d0)\<rparr>"
    using assms del ok by (simp add: svc_DeleteUser_def repo_Delete_def)
  then have d1: "users d1 = map mark (users d0)" by simp
  from some obtain r where r: "r \<in> set (users d0)" "live r" "ID r = i"
    unfolding hits_def by (auto simp: filter_empty_conv)
  then have "mark r \<in> set (users d1)" using d1 by simp
  moreover have "ID (mark r) = i \<and> DeletedAt (mark r) \<noteq> None"
    using r by (simp add: mark_def)
  ultimately have ex: "\<exists>r \<in> set (users d1). ID r = i \<and> DeletedAt r \<noteq> None" by blast
  have "\<not> (live (mark u) \<and> ID (mark u) = i)" for u
    by (simp add: mark_def live_def)
  then have "\<forall>r \<in> set (users d1). \<not> (live r \<and> ID r = i)"
    using d1 by auto
  with ex show ?thesis by blast
qed

text \<open>
  Claim C5. After a \<open>Delete\<close> of an identifier that succeeded, a \<open>GetByID\<close> of the
  same identifier that the store answers yields the ResourceNotFound error, which the
  handler sends as 404; the row is still in the table, with its deletion time set,
  and the read passes over it.
\<close>

theorem Delete_then_GetByID:
  assumes del: "svc_DeleteUser d i = (Inr (), d1)"
    and answered: "responsive 1 d1"
  shows "svc_GetUserByID d1 i =
           (Inl (AppError 404 ''RESOURCE_NOT_FOUND'' ''User not found''
                   (Some [(''id'', DUint i)]) (Some ErrRecordNotFound)),
            d1\<lparr>faults := tl (faults d1), trace := trace d1 @ [SelectByID i]\<rparr>)
       \<and> (\<exists>r \<in> set (users d1). ID r = i \<and> DeletedAt r \<noteq> None)
       \<and> (parseIDParam idParam = Inr i \<longrightarrow>
            fst (ctl_GetUserByID d1 idParam) =
              \<lparr>status = 404,
               body = JError \<lparr>code = ''RESOURCE_NOT_FOUND'', message = ''User not found'',
                              details = Some [(''id'', DUint i)]\<rparr>\<rparr>)"
proof -
  let ?d2 = "d1\<lparr>faults := tl (faults d1), trace := trace d1 @ [SelectByID i]\<rparr>"
  note gone = Delete_success [OF del]
  have run: "run_stmt (SelectByID i) d1 = (None, ?d2)"
    using answered run_stmt_responsive [of 0 d1] by simp
  from gone have "filter (\<lambda>u. live u \<and> ID u = i) (users d1) = []"
    by (simp add: filter_empty_conv)
  with run have svc: "svc_GetUserByID d1 i =
           (Inl (AppError 404 ''RESOURCE_NOT_FOUND'' ''User not found''
                   (Some [(''id'', DUint i)]) (Some ErrRecordNotFound)), ?d2)"
    by (simp add: svc_GetUserByID_def repo_FindByID_def gorm_First_id_def new_error_defs
          http_status_defs err_code_defs)
  then have "parseIDParam idParam = Inr i \<Longrightarrow>
            fst (ctl_GetUserByID d1 idParam) =
              \<lparr>status = 404,
               body = JError \<lparr>code = ''RESOURCE_NOT_FOUND'', message = ''User not found'',
                              details = Some [(''id'', DUint i)]\<rparr>\<rparr>"
    by (simp add: ctl_GetUserByID_def handleError_def marshal_AppError_def)
  with svc gone show ?thesis by blast
qed

theorem Delete_then_GetByID_witness:
  "svc_DeleteUser one_user_db 1 = (Inr (), ann_deleted)
   \<and> responsive 1 ann_deleted
   \<and> parseIDParam ''1'' = Inr 1
   \<and> svc_GetUserByID ann_deleted 1 =
           (Inl (AppError 404 ''RESOURCE_NOT_FOUND'' ''User not found''
                   (Some [(''id'', DUint 1)]) (Some ErrRecordNotFound)),
            ann_deleted\<lparr>trace := [SoftDelete 1, SelectByID 1]\<rparr>)
   \<and> fst (ctl_GetUserByID ann_deleted ''1'') =
              \<lparr>status = 404,
               body = JError \<lparr>code = ''RESOURCE_NOT_FOUND'', message = ''User not found'',
                              details = Some [(''id'', DUint 1)]\<rparr>\<rparr>"
proof -
  have a: "svc_DeleteUser one_user_db 1 = (Inr (), ann_deleted)"
    by (simp add: svc_DeleteUser_def repo_Delete_def gorm_Delete_def run_stmt_def
          one_user_db_def ann_deleted_def ann_def live_def)
  have b: "responsive 1 ann_deleted" by (simp add: responsive_def ann_deleted_def)
  have c: "parseIDParam ''1'' = Inr 1"
    by (simp add: parseIDParam_def ParseUint32_def is_digit_def digits_value_def)
  show ?thesis
    using a b c Delete_then_GetByID [OF a b, of "''1''"]
    by (simp add: ann_deleted_def)
qed

section \<open>Rejection before the service\<close>

text \<open>
  Claim C6. A body that \<open>ShouldBindJSON\<close> rejects, undecodable or failing a binding
  rule, and an \<open>id\<close> parameter that \<open>parseIDParam\<close> rejects, make the handler answer
  400 with the InvalidInput code and hand back the store it was given: no statement
  is issued, and table, sequence and trace are as before.
\<close>

theorem invalid_request_rejected:
  "(ShouldBindJSON (valid_UserCreate lib) creq = Inl err \<longrightarrow>
      ctl_CreateUser lib d creq = (invalid_input_response ''Invalid input'', d))
   \<and> (parseIDParam idParam = Inl err \<longrightarrow>
      ctl_GetUserByID d idParam = (invalid_input_response ''Invalid ID format'', d)
      \<and> ctl_UpdateUser lib d idParam ureq = (invalid_input_response ''Invalid ID format'', d)
      \<and> ctl_DeleteUser d idParam = (invalid_input_response ''Invalid ID format'', d))
   \<and> (parseIDParam idParam = Inr i \<and> ShouldBindJSON (valid_UserUpdate lib) ureq = Inl err \<longrightarrow>
      ctl_UpdateUser lib d idParam ureq = (invalid_input_response ''Invalid input'', d))"
  by (simp add: ctl_CreateUser_def ctl_GetUserByID_def ctl_UpdateUser_def ctl_DeleteUser_def
        invalid_input_response_def marshal_AppError_def new_error_defs http_status_defs
        err_code_defs)

theorem invalid_request_rejected_witness:
  "ShouldBindJSON (valid_UserCreate sample_lib) (Undecodable ''unexpected EOF'') =
      Inl (ErrorString ''unexpected EOF'')
   \<and> ctl_CreateUser sample_lib one_user_db (Undecodable ''unexpected EOF'') =
        (invalid_input_response ''Invalid input'', one_user_db)
   \<and> ShouldBindJSON (valid_UserCreate sample_lib) (Decoded (bob_create\<lparr>cPassword := ''abc''\<rparr>)) =
      Inl (ErrorString ''validation failed'')
   \<and> ctl_CreateUser sample_lib one_user_db (Decoded (bob_create\<lparr>cPassword := ''abc''\<rparr>)) =
        (invalid_input_response ''Invalid input'', one_user_db)
   \<and> parseIDParam ''1x'' = Inl (ErrorString ''invalid syntax'')
   \<and> ctl_GetUserByID one_user_db ''1x'' =
        (invalid_input_response ''Invalid ID format'', one_user_db)
   \<and> ctl_DeleteUser one_user_db ''1x'' =
        (invalid_input_response ''Invalid ID format'', one_user_db)
   \<and> parseIDParam ''1'' = Inr 1
   \<and> ShouldBindJSON (valid_UserUpdate sample_lib) (Decoded (rename_only\<lparr>uRole := Some ''root''\<rparr>)) =
      Inl (ErrorString ''validation failed'')
   \<and> ctl_UpdateUser sample_lib one_user_db ''1'' (Decoded (rename_only\<lparr>uRole := Some ''root''\<rparr>)) =
        (invalid_input_response ''Invalid input'', one_user_db)"
proof -
  have a: "ShouldBindJSON (valid_UserCreate sample_lib) (Undecodable ''unexpected EOF'') =
      Inl (ErrorString ''unexpected EOF'')"
    by (simp add: ShouldBindJSON_def)
  have b: "ShouldBindJSON (valid_UserCreate sample_lib)
             (Decoded (bob_create\<lparr>cPassword := ''abc''\<rparr>)) =
      Inl (ErrorString ''validation failed'')"
    by (simp add: ShouldBindJSON_def valid_UserCreate_def bob_create_def
          RuneCountInString_def)
  have c: "parseIDParam ''1x'' = Inl (ErrorString ''invalid syntax'')"
    by (simp add: parseIDParam_def ParseUint32_def is_digit_def)
  have e: "parseIDParam ''1'' = Inr 1"
    by (simp add: parseIDParam_def ParseUint32_def is_digit_def digits_value_def)
  have f: "ShouldBindJSON (valid_UserUpdate sample_lib)
             (Decoded (rename_only\<lparr>uRole := Some ''root''\<rparr>)) =
      Inl (ErrorString ''validation failed'')"
    by (simp add: ShouldBindJSON_def valid_UserUpdate_def rename_only_def
          oneof_admin_user_def)
  show ?thesis
    using a b c e f
      invalid_request_rejected [of sample_lib "Undecodable ''unexpected EOF''"
        "ErrorString ''unexpected EOF''" one_user_db "''1x''" "Decoded rename_only" 0]
      invalid_request_rejected [of sample_lib "Decoded (bob_create\<lparr>cPassword := ''abc''\<rparr>)"
        "ErrorString ''validation failed''" one_user_db "''1''"
        "Decoded (rename_only\<lparr>uRole := Some ''root''\<rparr>)" 1]
      invalid_request_rejected [of sample_lib "Decoded bob_create"
        "ErrorString ''invalid syntax''" one_user_db "''1x''" "Decoded rename_only" 0]
    by simp
qed

section \<open>A failing lookup in the gateway\<close>

lemma gorm_Create_trace:
  "gorm_Create d u = (res, d') \<Longrightarrow> trace d' = trace d @ [Insert u]"
proof -
  assume c: "gorm_Create d u = (res, d')"
  obtain f d1 where run: "run_stmt (Insert u) d = (f, d1)" by (cases "run_stmt (Insert u) d")
  then have t: "trace d1 = trace d @ [Insert u]" using run_stmt_fields by blast
  show ?thesis
  proof (cases f)
    case (Some msg)
    with c run t show ?thesis by (simp add: gorm_Create_def)
  next
    case None
    with c run have "insert_row d1 u = (res, d')" by (simp add: gorm_Create_def)
    then have "trace d' = trace d1"
      by (auto simp: insert_row_def Let_def split: if_splits)
    with t show ?thesis by simp
  qed
qed

text \<open>
  Claim C9. When the \<open>FindByEmail\<close> query of the gateway's \<open>Create\<close> fails with a
  driver error, \<open>FindByEmail\<close> returns a Database error, \<open>Create\<close> goes on to issue
  the insert, and whatever error it then returns is a Database error, never
  DuplicateResource, also when a live row has the e-mail. Conversely, a
  DuplicateResource error from \<open>Create\<close> means the lookup returned a live row of the
  table with that e-mail.
\<close>

theorem Create_lookup_failure:
  "(faults d = Some msg # fs \<longrightarrow>
      repo_FindByEmail d (Email user) =
        (Inl (AppError 500 ''DATABASE_ERROR'' ''Failed to retrieve user by email'' None
                (Some (ErrorString msg))),
         d\<lparr>faults := fs, trace := trace d @ [SelectByEmail (Email user)]\<rparr>)
      \<and> (\<exists>res d'. repo_Create d user = (res, d')
            \<and> trace d' = trace d @ [SelectByEmail (Email user), Insert user]
            \<and> (\<forall>e. res = Inl e \<longrightarrow> Code e = ''DATABASE_ERROR'')))
   \<and> (repo_Create d user = (Inl e, d2) \<and> Code e = ''DUPLICATE_RESOURCE'' \<longrightarrow>
        (\<exists>u d1. repo_FindByEmail d (Email user) = (Inr u, d1)
           \<and> u \<in> set (users d) \<and> live u \<and> Email u = Email user))"
proof (rule conjI)
  show "faults d = Some msg # fs \<longrightarrow>
      repo_FindByEmail d (Email user) =
        (Inl (AppError 500 ''DATABASE_ERROR'' ''Failed to retrieve user by email'' None
                (Some (ErrorString msg))),
         d\<lparr>faults := fs, trace := trace d @ [SelectByEmail (Email user)]\<rparr>)
      \<and> (\<exists>res d'. repo_Create d user = (res, d')
            \<and> trace d' = trace d @ [SelectByEmail (Email user), Insert user]
            \<and> (\<forall>e. res = Inl e \<longrightarrow> Code e = ''DATABASE_ERROR''))"
  proof
    assume f: "faults d = Some msg # fs"
    let ?d1 = "d\<lparr>faults := fs, trace := trace d @ [SelectByEmail (Email user)]\<rparr>"
    have look: "repo_FindByEmail d (Email user) =
        (Inl (AppError 500 ''DATABASE_ERROR'' ''Failed to retrieve user by email'' None
                (Some (ErrorString msg))), ?d1)"
      using f by (simp add: repo_FindByEmail_def gorm_First_email_def run_stmt_def
            new_error_defs http_status_defs err_code_defs)
    obtain r d' where ins: "gorm_Create ?d1 user = (r, d')" by (cases "gorm_Create ?d1 user")
    then have tr: "trace d' = trace d @ [SelectByEmail (Email user), Insert user]"
      using gorm_Create_trace by fastforce
    have "\<exists>res. repo_Create d user = (res, d')
            \<and> (\<forall>e. res = Inl e \<longrightarrow> Code e = ''DATABASE_ERROR'')"
      using look ins by (cases r) (simp_all add: repo_Create_def new_error_defs err_code_defs)
    with look tr show "repo_FindByEmail d (Email user) =
        (Inl (AppError 500 ''DATABASE_ERROR'' ''Failed to retrieve user by email'' None
                (Some (ErrorString msg))), ?d1)
      \<and> (\<exists>res d'. repo_Create d user = (res, d')
            \<and> trace d' = trace d @ [SelectByEmail (Email user), Insert user]
            \<and> (\<forall>e. res = Inl e \<longrightarrow> Code e = ''DATABASE_ERROR''))"
      by blast
  qed
next
  show "repo_Create d user = (Inl e, d2) \<and> Code e = ''DUPLICATE_RESOURCE'' \<longrightarrow>
        (\<exists>u d1. repo_FindByEmail d (Email user) = (Inr u, d1)
           \<and> u \<in> set (users d) \<and> live u \<and> Email u = Email user)"
  proof
    assume h: "repo_Create d user = (Inl e, d2) \<and> Code e = ''DUPLICATE_RESOURCE''"
    obtain r d1 where look: "repo_FindByEmail d (Email user) = (r, d1)"
      by (cases "repo_FindByEmail d (Email user)")
    show "\<exists>u d1. repo_FindByEmail d (Email user) = (Inr u, d1)
           \<and> u \<in> set (users d) \<and> live u \<and> Email u = Email user"
    proof (cases r)
      case (Inl err)
      obtain r' d' where ins: "gorm_Create d1 user = (r', d')" by (cases "gorm_Create d1 user")
      with h look Inl have False
        by (cases r') (auto simp: repo_Create_def new_error_defs err_code_defs)
      then show ?thesis ..
    next
      case (Inr u)
      obtain f d0 where run: "run_stmt (SelectByEmail (Email user)) d = (f, d0)"
        by (cases "run_stmt (SelectByEmail (Email user)) d")
      then have us: "users d0 = users d" using run_stmt_fields by blast
      have "u \<in> set (filter (\<lambda>r. live r \<and> Email r = Email user) (users d))"
        using look Inr run us
        by (cases f; cases "filter (\<lambda>r. live r \<and> Email r = Email user) (users d)")
           (auto simp: repo_FindByEmail_def gorm_First_email_def split: if_splits)
      with look Inr show ?thesis by auto
    qed
  qed
qed

theorem Create_lookup_failure_witness:
  "faults flaky_db = [Some ''connection reset'']
   \<and> list_ex (\<lambda>r. live r \<and> Email r = Email (ann\<lparr>ID := 0\<rparr>)) (users flaky_db)
   \<and> repo_Create flaky_db (ann\<lparr>ID := 0\<rparr>) =
        (Inl (AppError 500 ''DATABASE_ERROR'' ''Failed to create user'' None
                (Some (ErrorString unique_violation))),
         flaky_db\<lparr>user_seq := 2, faults := [],
                   trace := [SelectByEmail ''ann@x.com'', Insert (ann\<lparr>ID := 0\<rparr>)]\<rparr>)
   \<and> (\<exists>res d'. repo_Create flaky_db (ann\<lparr>ID := 0\<rparr>) = (res, d')
            \<and> trace d' = trace flaky_db @ [SelectByEmail (Email (ann\<lparr>ID := 0\<rparr>)),
                                              Insert (ann\<lparr>ID := 0\<rparr>)]
            \<and> (\<forall>e. res = Inl e \<longrightarrow> Code e = ''DATABASE_ERROR''))"
proof -
  have a: "faults flaky_db = [Some ''connection reset'']" by (simp add: flaky_db_def)
  have b: "list_ex (\<lambda>r. live r \<and> Email r = Email (ann\<lparr>ID := 0\<rparr>)) (users flaky_db)"
    by (simp add: flaky_db_def live_def ann_def)
  have c: "repo_Create flaky_db (ann\<lparr>ID := 0\<rparr>) =
        (Inl (AppError 500 ''DATABASE_ERROR'' ''Failed to create user'' None
                (Some (ErrorString unique_violation))),
         flaky_db\<lparr>user_seq := 2, faults := [],
                   trace := [SelectByEmail ''ann@x.com'', Insert (ann\<lparr>ID := 0\<rparr>)]\<rparr>)"
    by (simp add: repo_Create_def repo_FindByEmail_def gorm_First_email_def run_stmt_def
          gorm_Create_def insert_row_def flaky_db_def ann_def new_error_defs
          http_status_defs err_code_defs)
  show ?thesis
    using a b c Create_lookup_failure [of flaky_db "''connection reset''" "[]" "ann\<lparr>ID := 0\<rparr>"]
    by simp
qed

section \<open>Stored roles\<close>

lemma roles_ok_iff: "roles_ok d = (\<forall>r \<in> set (users d). role_ok r)"
  by (simp add: roles_ok_def list_all_iff)

lemma run_stmt_roles: "run_stmt st d = (f, d') \<Longrightarrow> roles_ok d' = roles_ok d"
  using run_stmt_fields [of st d f d'] by (simp add: roles_ok_def)

lemma insert_row_roles:
  assumes "roles_ok d" and "role_ok u" and "insert_row d u = (res, d')"
  shows "roles_ok d'"
  using assms
  by (auto simp: insert_row_def roles_ok_iff role_ok_def stamp_def Let_def split: if_splits)

lemma gorm_Create_roles:
  assumes "roles_ok d" and "role_ok u" and "gorm_Create d u = (res, d')"
  shows "roles_ok d'"
proof -
  obtain f d1 where run: "run_stmt (Insert u) d = (f, d1)" by (cases "run_stmt (Insert u) d")
  then have ok1: "roles_ok d1" using assms(1) run_stmt_roles by blast
  show ?thesis
  proof (cases f)
    case (Some msg)
    with assms(3) run ok1 show ?thesis by (auto simp: gorm_Create_def)
  next
    case None
    with assms(3) run have "insert_row d1 u = (res, d')" by (simp add: gorm_Create_def)
    with ok1 assms(2) show ?thesis using insert_row_roles by blast
  qed
qed

lemma replace_row_roles:
  "list_all role_ok rows \<Longrightarrow> role_ok u \<Longrightarrow> list_all role_ok (replace_row u rows)"
  by (auto simp: replace_row_def list_all_iff)

lemma roles_ok_users: "roles_ok (d\<lparr>users := rows\<rparr>) = list_all role_ok rows"
  by (simp add: roles_ok_def)

lemma roles_ok_list: "roles_ok d = list_all role_ok (users d)"
  by (simp add: roles_ok_def)

lemma gorm_Save_roles:
  assumes ok: "roles_ok d" and u: "role_ok u" and save: "gorm_Save d u = (res, d')"
  shows "roles_ok d'"
proof (cases "ID u = 0")
  case True
  obtain r1 d1 where c: "gorm_Create d u = (r1, d1)" by (cases "gorm_Create d u")
  then have "roles_ok d1" using ok u gorm_Create_roles by blast
  moreover have "d' = d1" using True save c by (cases r1) (simp_all add: gorm_Save_def)
  ultimately show ?thesis by simp
next
  case False
  let ?u1 = "u\<lparr>UpdatedAt := now d\<rparr>"
  have u1: "role_ok ?u1" using u by (simp add: role_ok_def)
  obtain f d1 where run: "run_stmt (UpdateRow ?u1) d = (f, d1)"
    by (cases "run_stmt (UpdateRow ?u1) d")
  then have ok1: "roles_ok d1" using ok run_stmt_roles by blast
  show ?thesis
  proof (cases f)
    case (Some msg)
    with False save run ok1 show ?thesis by (auto simp: gorm_Save_def Let_def)
  next
    case None
    show ?thesis
    proof (cases "\<exists>r \<in> set (users d1). live r \<and> ID r = ID u")
      case True
      have "roles_ok (d1\<lparr>users := replace_row ?u1 (users d1)\<rparr>)"
        using ok1 u1 by (simp add: roles_ok_users roles_ok_list replace_row_roles)
      with False save run None True ok1 show ?thesis
        by (auto simp: gorm_Save_def Let_def split: if_splits)
    next
      case nolive: False
      obtain g d2 where run2: "run_stmt (Upsert ?u1) d1 = (g, d2)"
        by (cases "run_stmt (Upsert ?u1) d1")
      then have ok2: "roles_ok d2" using ok1 run_stmt_roles by blast
      have a: "roles_ok (d2\<lparr>users := replace_row ?u1 (users d2)\<rparr>)"
        using ok2 u1 by (simp add: roles_ok_users roles_ok_list replace_row_roles)
      have "role_ok (stamp d2 ?u1)" using u by (simp add: role_ok_def stamp_def)
      then have b: "roles_ok (d2\<lparr>users := users d2 @ [stamp d2 ?u1]\<rparr>)"
        using ok2 by (simp add: roles_ok_users roles_ok_list)
      from False save run None nolive run2 ok2 a b show ?thesis
        by (cases g) (auto simp: gorm_Save_def Let_def split: if_splits)
    qed
  qed
qed

lemma gorm_Delete_roles:
  assumes "roles_ok d" and "gorm_Delete d i = (res, d')"
  shows "roles_ok d'"
proof -
  obtain f d1 where run: "run_stmt (SoftDelete i) d = (f, d1)"
    by (cases "run_stmt (SoftDelete i) d")
  then have ok1: "roles_ok d1" using assms(1) run_stmt_roles by blast
  define mark where
    "mark = (\<lambda>u. if live u \<and> ID u = i then u\<lparr>DeletedAt := Some (now d1)\<rparr> else u)"
  have m: "role_ok (mark r) = role_ok r" for r by (simp add: mark_def role_ok_def)
  have "d' = d1 \<or> d' = d1\<lparr>users := map mark (users d1)\<rparr>"
    using assms(2) run by (cases f) (auto simp: gorm_Delete_def mark_def)
  moreover have "roles_ok (d1\<lparr>users := map mark (users d1)\<rparr>)"
    using ok1 by (simp add: roles_ok_users roles_ok_list list_all_iff m)
  ultimately show ?thesis using ok1 by auto
qed


lemma FindByEmail_users:
  assumes "repo_FindByEmail d e = (res, d')"
  shows "users d' = users d"
proof -
  obtain f d1 where run: "run_stmt (SelectByEmail e) d = (f, d1)"
    by (cases "run_stmt (SelectByEmail e) d")
  then have "users d1 = users d" using run_stmt_fields by blast
  with assms run show ?thesis
    by (cases f; cases "filter (\<lambda>u. live u \<and> Email u = e) (users d)")
       (auto simp: repo_FindByEmail_def gorm_First_email_def split: if_splits)
qed

lemma repo_Create_roles:
  assumes ok: "roles_ok d" and u: "role_ok u" and c: "repo_Create d u = (res, d')"
  shows "roles_ok d'"
proof -
  obtain r1 d1 where look: "repo_FindByEmail d (Email u) = (r1, d1)"
    by (cases "repo_FindByEmail d (Email u)")
  then have ok1: "roles_ok d1" using ok FindByEmail_users by (simp add: roles_ok_def)
  show ?thesis
  proof (cases r1)
    case (Inr existing)
    with c look ok1 show ?thesis by (simp add: repo_Create_def)
  next
    case (Inl err)
    obtain r2 d2 where ins: "gorm_Create d1 u = (r2, d2)" by (cases "gorm_Create d1 u")
    then have "roles_ok d2" using ok1 u gorm_Create_roles by blast
    moreover have "d' = d2" using c look Inl ins by (cases r2) (simp_all add: repo_Create_def)
    ultimately show ?thesis by simp
  qed
qed

lemma repo_Update_roles:
  assumes ok: "roles_ok d" and u: "role_ok u" and c: "repo_Update d u = (res, d')"
  shows "roles_ok d'"
proof -
  obtain r1 d1 where save: "gorm_Save d u = (r1, d1)" by (cases "gorm_Save d u")
  then have "roles_ok d1" using ok u gorm_Save_roles by blast
  moreover have "d' = d1"
    using c save by (cases r1) (auto simp: repo_Update_def split: if_splits)
  ultimately show ?thesis by simp
qed

lemma repo_Delete_roles:
  assumes ok: "roles_ok d" and c: "repo_Delete d i = (res, d')"
  shows "roles_ok d'"
proof -
  obtain r1 d1 where del: "gorm_Delete d i = (r1, d1)" by (cases "gorm_Delete d i")
  then have "roles_ok d1" using ok gorm_Delete_roles by blast
  moreover have "d' = d1"
    using c del by (cases r1) (auto simp: repo_Delete_def split: if_splits)
  ultimately show ?thesis by simp
qed

lemma svc_CreateUser_roles:
  assumes ok: "roles_ok d" and v: "valid_UserCreate lib input"
    and c: "svc_CreateUser lib d input = (res, d')"
  shows "roles_ok d'"
proof (cases "bcrypt_GenerateFromPassword lib (cPassword input)")
  case (Inl err)
  with c ok show ?thesis by (simp add: svc_CreateUser_def)
next
  case (Inr h)
  define user where "user = \<lparr>ID = 0, Name = cName input, Email = cEmail input,
      Password = h, Role = (if cRole input = [] then ''user'' else cRole input),
      Active = True, CreatedAt = 0, UpdatedAt = 0, DeletedAt = None\<rparr>"
  have u: "role_ok user"
    using v by (auto simp: user_def role_ok_def valid_UserCreate_def oneof_admin_user_def)
  obtain r1 d1 where cr: "repo_Create d user = (r1, d1)" by (cases "repo_Create d user")
  then have "roles_ok d1" using ok u repo_Create_roles by blast
  moreover have "d' = d1"
    using c Inr cr
    by (cases r1; cases "cRole input = []") (simp_all add: svc_CreateUser_def user_def Let_def)
  ultimately show ?thesis by simp
qed

lemma apply_update_role:
  "apply_update lib input u = Inr u' \<Longrightarrow>
     Role u' = (case uRole input of Some r \<Rightarrow> r | None \<Rightarrow> Role u)"
  by (auto simp: apply_update_def Let_def split: option.splits sum.splits)

lemma svc_UpdateUser_roles:
  assumes ok: "roles_ok d" and v: "valid_UserUpdate lib input"
    and c: "svc_UpdateUser lib d i input = (res, d')"
  shows "roles_ok d'"
proof -
  obtain r1 d1 where find: "repo_FindByID d i = (r1, d1)" by (cases "repo_FindByID d i")
  note found = FindByID_result [OF find]
  then have ok1: "roles_ok d1" using ok by (simp add: roles_ok_def)
  show ?thesis
  proof (cases r1)
    case (Inl err)
    with c find ok1 show ?thesis by (simp add: svc_UpdateUser_def)
  next
    case (Inr u)
    with found ok have u: "role_ok u" by (simp add: roles_ok_def list_all_iff)
    show ?thesis
    proof (cases "apply_update lib input u")
      case (Inl err)
      with c find Inr ok1 show ?thesis by (simp add: svc_UpdateUser_def)
    next
      case upd: (Inr u')
      have u': "role_ok u'"
        using apply_update_role [OF upd] u v
        by (auto simp: role_ok_def valid_UserUpdate_def split: option.splits)
      obtain r2 d2 where up: "repo_Update d1 u' = (r2, d2)" by (cases "repo_Update d1 u'")
      then have "roles_ok d2" using ok1 u' repo_Update_roles by blast
      moreover have "d' = d2"
        using c find Inr upd up by (cases r2) (simp_all add: svc_UpdateUser_def)
      ultimately show ?thesis by simp
    qed
  qed
qed

lemma bind_valid: "ShouldBindJSON valid req = Inr input \<Longrightarrow> valid input"
  by (auto simp: ShouldBindJSON_def split: json_request.splits if_splits)

lemma Register_roles:
  assumes ok: "roles_ok d"
  shows "roles_ok (snd (Register lib d req))"
proof (cases req)
  case GET_users
  obtain r1 d1 where f: "gorm_Find d = (r1, d1)" by (cases "gorm_Find d")
  obtain g d0 where run: "run_stmt SelectAll d = (g, d0)" by (cases "run_stmt SelectAll d")
  then have "users d0 = users d" using run_stmt_fields by blast
  then have "users (snd (gorm_Find d)) = users d"
    using run by (cases g) (simp_all add: gorm_Find_def)
  then have "users (snd (ctl_GetAllUsers d)) = users d"
    by (cases "gorm_Find d"; cases "fst (gorm_Find d)")
       (auto simp: ctl_GetAllUsers_def svc_GetAllUsers_def repo_FindAll_def)
  with ok GET_users show ?thesis by (simp add: roles_ok_def)
next
  case (GET_user idParam)
  show ?thesis
  proof (cases "parseIDParam idParam")
    case (Inl err)
    with ok GET_user show ?thesis by (simp add: ctl_GetUserByID_def)
  next
    case (Inr i)
    obtain r1 d1 where find: "repo_FindByID d i = (r1, d1)" by (cases "repo_FindByID d i")
    then have "users d1 = users d" using FindByID_result by blast
    moreover have "snd (ctl_GetUserByID d idParam) = d1"
      using Inr find by (cases r1) (simp_all add: ctl_GetUserByID_def svc_GetUserByID_def)
    ultimately show ?thesis using ok GET_user by (simp add: roles_ok_def)
  qed
next
  case (POST_users creq)
  show ?thesis
  proof (cases "ShouldBindJSON (valid_UserCreate lib) creq")
    case (Inl err)
    with ok POST_users show ?thesis by (simp add: ctl_CreateUser_def)
  next
    case (Inr input)
    then have v: "valid_UserCreate lib input" by (rule bind_valid)
    obtain r1 d1 where c: "svc_CreateUser lib d input = (r1, d1)"
      by (cases "svc_CreateUser lib d input")
    then have "roles_ok d1" using ok v svc_CreateUser_roles by blast
    moreover have "snd (ctl_CreateUser lib d creq) = d1"
      using Inr c by (cases r1) (simp_all add: ctl_CreateUser_def)
    ultimately show ?thesis using POST_users by simp
  qed
next
  case (PUT_user idParam ureq)
  show ?thesis
  proof (cases "parseIDParam idParam")
    case (Inl err)
    with ok PUT_user show ?thesis by (simp add: ctl_UpdateUser_def)
  next
    case i: (Inr i)
    show ?thesis
    proof (cases "ShouldBindJSON (valid_UserUpdate lib) ureq")
      case (Inl err)
      with ok PUT_user i show ?thesis by (simp add: ctl_UpdateUser_def)
    next
      case (Inr input)
      then have v: "valid_UserUpdate lib input" by (rule bind_valid)
      obtain r1 d1 where c: "svc_UpdateUser lib d i input = (r1, d1)"
        by (cases "svc_UpdateUser lib d i input")
      then have "roles_ok d1" using ok v svc_UpdateUser_roles by blast
      moreover have "snd (ctl_UpdateUser lib d idParam ureq) = d1"
        using i Inr c by (cases r1) (simp_all add: ctl_UpdateUser_def)
      ultimately show ?thesis using PUT_user by simp
    qed
  qed
next
  case (DELETE_user idParam)
  show ?thesis
  proof (cases "parseIDParam idParam")
    case (Inl err)
    with ok DELETE_user show ?thesis by (simp add: ctl_DeleteUser_def)
  next
    case (Inr i)
    obtain r1 d1 where c: "repo_Delete d i = (r1, d1)" by (cases "repo_Delete d i")
    then have "roles_ok d1" using ok repo_Delete_roles by blast
    moreover have "snd (ctl_DeleteUser d idParam) = d1"
      using Inr c by (cases r1) (simp_all add: ctl_DeleteUser_def svc_DeleteUser_def)
    ultimately show ?thesis using DELETE_user by simp
  qed
qed

lemma serve_roles: "roles_ok d \<Longrightarrow> roles_ok (serve lib d reqs)"
  by (induction reqs arbitrary: d) (simp_all add: Register_roles)

text \<open>
  Claim C10. Serving any sequence of requests of the five routes on a table whose
  rows all have role \<open>admin\<close> or \<open>user\<close> leaves such a table. A creation body with a
  non-empty role outside the two, and an update body whose role is present and
  outside the two (the empty string included), are answered 400 with the store
  untouched; and a creation that succeeds returns the input's role, or \<open>user\<close> when
  the input's role is empty.
\<close>

theorem stored_roles_closed:
  "(roles_ok d \<longrightarrow> roles_ok (serve lib d reqs))
   \<and> (cRole input \<noteq> [] \<and> \<not> oneof_admin_user (cRole input) \<longrightarrow>
        ctl_CreateUser lib d (Decoded input) = (invalid_input_response ''Invalid input'', d))
   \<and> (uRole upd = Some r \<and> \<not> oneof_admin_user r \<longrightarrow>
        status (fst (ctl_UpdateUser lib d idParam (Decoded upd))) = 400
        \<and> snd (ctl_UpdateUser lib d idParam (Decoded upd)) = d)
   \<and> (valid_UserCreate lib input \<and> svc_CreateUser lib d input = (Inr resp, d') \<longrightarrow>
        rRole resp = (if cRole input = [] then ''user'' else cRole input)
        \<and> oneof_admin_user (rRole resp))"
proof (intro conjI)
  show "roles_ok d \<longrightarrow> roles_ok (serve lib d reqs)"
    by (simp add: serve_roles)
next
  show "cRole input \<noteq> [] \<and> \<not> oneof_admin_user (cRole input) \<longrightarrow>
        ctl_CreateUser lib d (Decoded input) = (invalid_input_response ''Invalid input'', d)"
    by (simp add: ctl_CreateUser_def ShouldBindJSON_def valid_UserCreate_def
          invalid_input_response_def marshal_AppError_def new_error_defs http_status_defs
          err_code_defs)
next
  show "uRole upd = Some r \<and> \<not> oneof_admin_user r \<longrightarrow>
        status (fst (ctl_UpdateUser lib d idParam (Decoded upd))) = 400
        \<and> snd (ctl_UpdateUser lib d idParam (Decoded upd)) = d"
    by (cases "parseIDParam idParam")
       (simp_all add: ctl_UpdateUser_def ShouldBindJSON_def valid_UserUpdate_def
          http_status_defs)
next
  show "valid_UserCreate lib input \<and> svc_CreateUser lib d input = (Inr resp, d') \<longrightarrow>
        rRole resp = (if cRole input = [] then ''user'' else cRole input)
        \<and> oneof_admin_user (rRole resp)"
  proof
    assume h: "valid_UserCreate lib input \<and> svc_CreateUser lib d input = (Inr resp, d')"
    then obtain hp where hp: "bcrypt_GenerateFromPassword lib (cPassword input) = Inr hp"
      by (cases "bcrypt_GenerateFromPassword lib (cPassword input)")
         (simp_all add: svc_CreateUser_def)
    define user where "user = \<lparr>ID = 0, Name = cName input, Email = cEmail input,
      Password = hp, Role = (if cRole input = [] then ''user'' else cRole input),
      Active = True, CreatedAt = 0, UpdatedAt = 0, DeletedAt = None\<rparr>"
    obtain r1 d1 where cr: "repo_Create d user = (r1, d1)" by (cases "repo_Create d user")
    have "r1 = Inr u \<Longrightarrow> Role u = Role user" for u
    proof -
      assume r1: "r1 = Inr u"
      obtain r0 d0 where look: "repo_FindByEmail d (Email user) = (r0, d0)"
        by (cases "repo_FindByEmail d (Email user)")
      obtain r2 d2 where ins: "gorm_Create d0 user = (r2, d2)"
        by (cases "gorm_Create d0 user")
      from cr r1 look ins have r2: "r2 = Inr u"
        by (cases r0; cases r2) (simp_all add: repo_Create_def)
      obtain f d3 where run: "run_stmt (Insert user) d0 = (f, d3)"
        by (cases "run_stmt (Insert user) d0")
      with ins r2 have "insert_row d3 user = (Inr u, d2)"
        by (cases f) (simp_all add: gorm_Create_def)
      then show "Role u = Role user"
        by (auto simp: insert_row_def stamp_def Let_def split: if_splits)
    qed
    moreover have "r1 = Inr u \<Longrightarrow> resp = ToResponse u" for u
      using h hp cr
      by (cases "cRole input = []") (simp_all add: svc_CreateUser_def user_def Let_def)
    moreover have "\<exists>u. r1 = Inr u"
      using h hp cr
      by (cases r1; cases "cRole input = []")
         (simp_all add: svc_CreateUser_def user_def Let_def)
    ultimately have "rRole resp = Role user" by (auto simp: ToResponse_def)
    then have a: "rRole resp = (if cRole input = [] then ''user'' else cRole input)"
      by (simp add: user_def)
    moreover have "oneof_admin_user (rRole resp)"
      using a h by (auto simp: valid_UserCreate_def oneof_admin_user_def)
    ultimately show "rRole resp = (if cRole input = [] then ''user'' else cRole input)
        \<and> oneof_admin_user (rRole resp)" by blast
  qed
qed

theorem stored_roles_closed_witness:
  "roles_ok empty_db
   \<and> roles_ok (serve sample_lib empty_db three_requests)
   \<and> cRole (bob_create\<lparr>cRole := ''root''\<rparr>) \<noteq> []
   \<and> \<not> oneof_admin_user (cRole (bob_create\<lparr>cRole := ''root''\<rparr>))
   \<and> ctl_CreateUser sample_lib empty_db (Decoded (bob_create\<lparr>cRole := ''root''\<rparr>)) =
       (invalid_input_response ''Invalid input'', empty_db)
   \<and> uRole (rename_only\<lparr>uRole := Some []\<rparr>) = Some []
   \<and> \<not> oneof_admin_user []
   \<and> status (fst (ctl_UpdateUser sample_lib one_user_db ''1''
                     (Decoded (rename_only\<lparr>uRole := Some []\<rparr>)))) = 400
   \<and> snd (ctl_UpdateUser sample_lib one_user_db ''1''
             (Decoded (rename_only\<lparr>uRole := Some []\<rparr>))) = one_user_db
   \<and> valid_UserCreate sample_lib bob_create
   \<and> fst (svc_CreateUser sample_lib empty_db bob_create) = Inr bob_response
   \<and> rRole bob_response = ''user''"
proof -
  have a: "roles_ok empty_db" by (simp add: roles_ok_def empty_db_def)
  have b: "cRole (bob_create\<lparr>cRole := ''root''\<rparr>) \<noteq> []
     \<and> \<not> oneof_admin_user (cRole (bob_create\<lparr>cRole := ''root''\<rparr>))"
    by (simp add: oneof_admin_user_def)
  have c: "uRole (rename_only\<lparr>uRole := Some []\<rparr>) = Some [] \<and> \<not> oneof_admin_user []"
    by (simp add: oneof_admin_user_def)
  have v: "valid_UserCreate sample_lib bob_create"
    by (simp add: valid_UserCreate_def sample_lib_def bob_create_def RuneCountInString_def)
  have e: "fst (svc_CreateUser sample_lib empty_db bob_create) = Inr bob_response"
    by (simp add: svc_CreateUser_def repo_Create_def repo_FindByEmail_def
          gorm_First_email_def gorm_Create_def insert_row_def stamp_def run_stmt_def
          sample_lib_def bob_create_def empty_db_def bob_response_def ToResponse_def
          new_error_defs Let_def)
  then have f: "svc_CreateUser sample_lib empty_db bob_create =
      (Inr bob_response, snd (svc_CreateUser sample_lib empty_db bob_create))"
    by (metis prod.collapse)
  have g: "cRole bob_create = []" by (simp add: bob_create_def)
  show ?thesis
    using a b c v e f g
      stored_roles_closed [of empty_db sample_lib three_requests
         "bob_create\<lparr>cRole := ''root''\<rparr>" "rename_only" "''root''" "''1''"
         bob_response "snd (svc_CreateUser sample_lib empty_db bob_create)"]
      stored_roles_closed [of one_user_db sample_lib "[]"
         "bob_create\<lparr>cRole := ''root''\<rparr>" "rename_only\<lparr>uRole := Some []\<rparr>" "[]" "''1''"
         bob_response "snd (svc_CreateUser sample_lib empty_db bob_create)"]
      stored_roles_closed [of empty_db sample_lib "[]" bob_create "rename_only" "[]" "''1''"
         bob_response "snd (svc_CreateUser sample_lib empty_db bob_create)"]
    by simp
qed

section \<open>Listing users\<close>

lemma foldl_append_slice:
  "foldl (\<lambda>response user. append_slice response (f user)) (Slice acc) us =
     Slice (acc @ map f us)"
  by (induction us arbitrary: acc) simp_all

lemma GetAllUsers_response_slice:
  "foldl (\<lambda>response user. append_slice response (f user)) NilSlice us =
     (if us = [] then NilSlice else Slice (map f us))"
  by (cases us) (simp_all add: foldl_append_slice)

lemma GetAllUsers_body:
  assumes "responsive 1 d"
  shows "ctl_GetAllUsers d =
           (\<lparr>status = 200,
             body = (if filter live (users d) = [] then JNull
                     else JUsers (map ToResponse (filter live (users d))))\<rparr>,
            d\<lparr>faults := tl (faults d), trace := trace d @ [SelectAll]\<rparr>)"
proof -
  have "run_stmt SelectAll d =
          (None, d\<lparr>faults := tl (faults d), trace := trace d @ [SelectAll]\<rparr>)"
    using assms run_stmt_responsive [of 0 d] by simp
  then show ?thesis
    by (simp add: ctl_GetAllUsers_def svc_GetAllUsers_def repo_FindAll_def gorm_Find_def
          GetAllUsers_response_slice marshal_users_def StatusOK_def)
qed

text \<open>
  Claim C8, at the input where the code departs from it. \<open>GET /api/v1/users\<close> on a
  store without users answers 200, but the body is the JSON value \<open>null\<close>, not the
  empty array: the response slice of \<open>GetAllUsers\<close> is still nil when the loop over
  no users ends. (With at least one live user the body is the array of their
  response shapes, by \<open>GetAllUsers_body\<close>.)
\<close>

theorem GetAllUsers_empty_store:
  "ctl_GetAllUsers empty_db =
     (\<lparr>status = 200, body = JNull\<rparr>, empty_db\<lparr>trace := [SelectAll]\<rparr>)
   \<and> body (fst (ctl_GetAllUsers empty_db)) \<noteq> JUsers []"
  by (simp add: ctl_GetAllUsers_def svc_GetAllUsers_def repo_FindAll_def gorm_Find_def
        run_stmt_def empty_db_def marshal_users_def StatusOK_def)

section \<open>Deleting an item\<close>

text \<open>
  Claim C7, at the input where the code departs from it. \<open>DELETE /items/999\<close> on a
  table whose only item has identifier 1: the statement affects no row, the table is
  as before, and the handler answers 200 with \<open>{"deleted": 999}\<close>; \<open>RowsAffected\<close> is
  never read, so there is no NotFound outcome.
\<close>

theorem DeleteItem_absent_row:
  "DeleteItem one_item_db ''999'' =
     (\<lparr>istatus = 200, ibody = JDeleted 999\<rparr>, one_item_db\<lparr>item_trace := [999]\<rparr>)
   \<and> list_all (\<lambda>r. int (iID r) \<noteq> 999) (items one_item_db)"
  by (simp add: DeleteItem_def Atoi_def gorm_Delete_item_def one_item_db_def is_digit_def
        digits_value_def StatusOK_def Let_def)

end
